theory Spec2Isabelle
  imports Complex_Main
begin

section \<open>JavaScript values\<close>

text \<open>
  The client of \<^verbatim>\<open>src/index.mjs\<close> is dynamically typed: its validators inspect the
  type of what they are given.  Values are therefore modelled by a datatype of plain data.
  A string is a list of code units (the model covers the code units below 256), an array is
  a dense list of elements, an object is the list of its own enumerable properties in the
  order in which \<^verbatim>\<open>Object.entries\<close> enumerates them.

  A number is \<^verbatim>\<open>NaN\<close>, an infinity or a finite value; every finite double is a
  rational number and the comparison of doubles is the comparison of these rationals.
\<close>

datatype jsnum = NaN | NegInf | Fin rat | PosInf

datatype jsval =
    Undefined
  | Null
  | Bool bool
  | Num jsnum
  | Str string
  | Arr "jsval list"
  | Obj "(string \<times> jsval) list"

text \<open>The operator \<^verbatim>\<open><\<close> on two numbers; \<^verbatim>\<open>a > b\<close> is \<^verbatim>\<open>b < a\<close>.\<close>

fun js_lt :: "jsnum \<Rightarrow> jsnum \<Rightarrow> bool" where
  "js_lt NaN _ = False"
| "js_lt _ NaN = False"
| "js_lt PosInf _ = False"
| "js_lt _ NegInf = False"
| "js_lt NegInf _ = True"
| "js_lt _ PosInf = True"
| "js_lt (Fin a) (Fin b) = (a < b)"

definition js_gt :: "jsnum \<Rightarrow> jsnum \<Rightarrow> bool" where
  "js_gt a b = js_lt b a"

text \<open>
  The operator \<^verbatim>\<open><=\<close> on two numbers, in which inclusive bounds are stated, and
  \<^verbatim>\<open>Number.isFinite\<close>.
\<close>

fun js_le :: "jsnum \<Rightarrow> jsnum \<Rightarrow> bool" where
  "js_le NaN _ = False"
| "js_le _ NaN = False"
| "js_le NegInf _ = True"
| "js_le _ PosInf = True"
| "js_le PosInf _ = False"
| "js_le _ NegInf = False"
| "js_le (Fin a) (Fin b) = (a \<le> b)"

fun isFinite :: "jsnum \<Rightarrow> bool" where
  "isFinite (Fin _) = True"
| "isFinite _ = False"

text \<open>\<^verbatim>\<open>ToBoolean\<close>: what \<^verbatim>\<open>!v\<close>, \<^verbatim>\<open>v && e\<close> and \<^verbatim>\<open>v || e\<close> test.\<close>

fun truthy :: "jsval \<Rightarrow> bool" where
  "truthy Undefined = False"
| "truthy Null = False"
| "truthy (Bool b) = b"
| "truthy (Num n) = (n \<noteq> NaN \<and> n \<noteq> Fin 0)"
| "truthy (Str s) = (s \<noteq> [])"
| "truthy (Arr _) = True"
| "truthy (Obj _) = True"

text \<open>Decimal text of a natural number: the string form of array indices and status codes.\<close>

definition digit_char :: "nat \<Rightarrow> char" where
  "digit_char d = ''0123456789'' ! d"

fun nat_text :: "nat \<Rightarrow> string" where
  "nat_text n = (if n < 10 then [digit_char n] else nat_text (n div 10) @ [digit_char (n mod 10)])"

declare nat_text.simps [simp del]

fun join_comma :: "string list \<Rightarrow> string" where
  "join_comma [] = []"
| "join_comma [s] = s"
| "join_comma (s # t # ss) = s @ '','' @ join_comma (t # ss)"

section \<open>Errors\<close>

text \<open>A thrown error carries its message; \<open>message\<close> reads \<^verbatim>\<open>error.message\<close>.\<close>

datatype error = Error string | TypeError string

fun message :: "error \<Rightarrow> string" where
  "message (Error m) = m"
| "message (TypeError m) = m"

section \<open>Conversion to strings\<close>

text \<open>
  The objects of the model are plain objects: their prototype is \<^verbatim>\<open>Object.prototype\<close> and
  their properties hold data.  Such an object has a string form, \<^verbatim>\<open>[object Object]\<close>,
  unless it has an own property \<^verbatim>\<open>toString\<close>: that property hides the method of the
  prototype and is not callable.  An array has a string form when its elements have one.
\<close>

fun stringable :: "jsval \<Rightarrow> bool" where
  "stringable (Obj es) = (map_of es ''toString'' = None)"
| "stringable (Arr xs) = list_all stringable xs"
| "stringable _ = True"

text \<open>
  The string form of a value that has one.  The text of a number is floating-point formatting
  and is a parameter \<open>ns\<close> of the model.  An array prints its elements separated by commas,
  with \<^verbatim>\<open>null\<close> and \<^verbatim>\<open>undefined\<close> elements printed as the empty string.
\<close>

fun string_form :: "(jsnum \<Rightarrow> string) \<Rightarrow> jsval \<Rightarrow> string" where
  "string_form ns Undefined = ''undefined''"
| "string_form ns Null = ''null''"
| "string_form ns (Bool b) = (if b then ''true'' else ''false'')"
| "string_form ns (Num n) = ns n"
| "string_form ns (Str s) = s"
| "string_form ns (Arr xs) =
     join_comma (map (\<lambda>x. if x = Undefined \<or> x = Null then [] else string_form ns x) xs)"
| "string_form ns (Obj _) = ''[object Object]''"

text \<open>
  \<^verbatim>\<open>ToString\<close>, which \<^verbatim>\<open>new Error(v)\<close> and \<^verbatim>\<open>URLSearchParams.append\<close> apply to a
  value.  On an object with an own property \<^verbatim>\<open>toString\<close> it finds no callable method
  that returns a primitive and throws a \<^verbatim>\<open>TypeError\<close> (the messages are those of V8);
  on an array it joins the elements, as \<^verbatim>\<open>Array.prototype.join\<close> does, and throws when
  the conversion of an element throws.
\<close>

fun ToString :: "(jsnum \<Rightarrow> string) \<Rightarrow> jsval \<Rightarrow> error + string"
and join_elements :: "(jsnum \<Rightarrow> string) \<Rightarrow> jsval list \<Rightarrow> error + string list" where
  "ToString ns Undefined = Inr ''undefined''"
| "ToString ns Null = Inr ''null''"
| "ToString ns (Bool b) = Inr (if b then ''true'' else ''false'')"
| "ToString ns (Num n) = Inr (ns n)"
| "ToString ns (Str s) = Inr s"
| "ToString ns (Arr xs) =
     (case join_elements ns xs of Inl e \<Rightarrow> Inl e | Inr ts \<Rightarrow> Inr (join_comma ts))"
| "ToString ns (Obj es) =
     (case map_of es ''toString'' of
        None \<Rightarrow> Inr ''[object Object]''
      | Some f \<Rightarrow> Inl (TypeError ''Cannot convert object to primitive value''))"
| "join_elements ns [] = Inr []"
| "join_elements ns (x # xs) =
     (case (if x = Undefined \<or> x = Null then Inr [] else ToString ns x) of
        Inl e \<Rightarrow> Inl e
      | Inr t \<Rightarrow> (case join_elements ns xs of Inl e \<Rightarrow> Inl e | Inr ts \<Rightarrow> Inr (t # ts)))"

text \<open>
  The call \<^verbatim>\<open>value.toString()\<close>: the method of the prototype on a primitive, on an array
  and on an object without an own property \<^verbatim>\<open>toString\<close>; a \<^verbatim>\<open>TypeError\<close> when the own
  property hides the method, and on \<^verbatim>\<open>null\<close> and \<^verbatim>\<open>undefined\<close>, which have no
  properties.
\<close>

fun toString_method :: "(jsnum \<Rightarrow> string) \<Rightarrow> jsval \<Rightarrow> error + string" where
  "toString_method ns (Obj es) =
     (case map_of es ''toString'' of
        None \<Rightarrow> Inr ''[object Object]''
      | Some f \<Rightarrow> Inl (TypeError ''value.toString is not a function''))"
| "toString_method ns Null =
     Inl (TypeError ''Cannot read properties of null (reading 'toString')'')"
| "toString_method ns Undefined =
     Inl (TypeError ''Cannot read properties of undefined (reading 'toString')'')"
| "toString_method ns value = ToString ns value"

text \<open>
  The number printer of the examples: \<^verbatim>\<open>Number::toString\<close> on \<^verbatim>\<open>NaN\<close>, on the
  infinities and on the integers up to \<open>2^53\<close> in magnitude, which print as plain decimals.
  It is left unspecified on the other numbers; the examples print none of them, and the
  theorems below hold for every printer.
\<close>

definition int_text :: "int \<Rightarrow> string" where
  "int_text i = (if i < 0 then ''-'' @ nat_text (nat (- i)) else nat_text (nat i))"

fun num_text :: "jsnum \<Rightarrow> string" where
  "num_text NaN = ''NaN''"
| "num_text PosInf = ''Infinity''"
| "num_text NegInf = ''-Infinity''"
| "num_text (Fin q) =
     (if snd (quotient_of q) = 1 \<and> \<bar>fst (quotient_of q)\<bar> \<le> 9007199254740992
      then int_text (fst (quotient_of q)) else undefined)"

section \<open>String helpers\<close>

text \<open>The white space and line terminators that \<^verbatim>\<open>String.prototype.trim\<close> strips.\<close>

definition is_space :: "char \<Rightarrow> bool" where
  "is_space c = (c \<in> set [CHR 0x09, CHR 0x0A, CHR 0x0B, CHR 0x0C, CHR 0x0D, CHR 0x20, CHR 0xA0])"

definition trim :: "string \<Rightarrow> string" where
  "trim s = rev (dropWhile is_space (rev (dropWhile is_space s)))"

fun startsWith :: "string \<Rightarrow> string \<Rightarrow> bool" where
  "startsWith _ [] = True"
| "startsWith [] (p # ps) = False"
| "startsWith (c # cs) (p # ps) = (c = p \<and> startsWith cs ps)"

definition endsWith :: "string \<Rightarrow> string \<Rightarrow> bool" where
  "endsWith s suf = startsWith (rev s) (rev suf)"

fun str_includes :: "string \<Rightarrow> string \<Rightarrow> bool" where
  "str_includes [] p = (p = [])"
| "str_includes (c # cs) p = (startsWith (c # cs) p \<or> str_includes cs p)"

text \<open>
  \<^verbatim>\<open>validator.escape\<close> of the \<^verbatim>\<open>validator\<close> package replaces each of the
  characters \<^verbatim>\<open>& " ' < > / \ `\<close> by an HTML entity and keeps every other character.
\<close>

definition escape_char :: "char \<Rightarrow> string" where
  "escape_char c =
    (if c = CHR ''&'' then ''&amp;''
     else if c = CHR 0x22 then ''&quot;''
     else if c = CHR 0x27 then ''&#x27;''
     else if c = CHR ''<'' then ''&lt;''
     else if c = CHR ''>'' then ''&gt;''
     else if c = CHR ''/'' then ''&#x2F;''
     else if c = CHR 0x5C then ''&#x5C;''
     else if c = CHR 0x60 then ''&#96;''
     else [c])"

definition escape :: "string \<Rightarrow> string" where
  "escape s = concat (map escape_char s)"

section \<open>Validators\<close>

text \<open>
  Option objects are records whose fields are optional: \<open>None\<close> is a property that the caller
  left out (\<^verbatim>\<open>undefined\<close>), for which the destructuring default applies.
\<close>

record number_options =
  opt_min :: "jsnum option"
  opt_max :: "jsnum option"

definition validateNumber ::
  "(jsnum \<Rightarrow> string) \<Rightarrow> jsval \<Rightarrow> string \<Rightarrow> number_options \<Rightarrow> error + jsval" where
  "validateNumber ns value fieldName options =
    (let min = (case opt_min options of None \<Rightarrow> Fin 0 | Some m \<Rightarrow> m);
         max = opt_max options
     in case value of
          Num v \<Rightarrow>
            if v = NaN then Inl (Error (fieldName @ '' must be a valid number''))
            else if js_lt v min then Inl (Error (fieldName @ '' must be at least '' @ ns min))
            else (case max of
                    None \<Rightarrow> Inr value
                  | Some mx \<Rightarrow>
                      if js_gt v mx then Inl (Error (fieldName @ '' must be at most '' @ ns mx))
                      else Inr value)
        | _ \<Rightarrow> Inl (Error (fieldName @ '' must be a valid number'')))"

record string_options =
  opt_required :: "bool option"
  opt_maxLength :: "jsnum option"
  opt_minLength :: "jsnum option"
  opt_sanitize :: "bool option"

definition no_options :: string_options where
  "no_options = \<lparr>opt_required = None, opt_maxLength = None, opt_minLength = None, opt_sanitize = None\<rparr>"

text \<open>The length of a string as a number.\<close>

definition length_num :: "string \<Rightarrow> jsnum" where
  "length_num s = Fin (of_nat (length s))"

definition validateString ::
  "(jsnum \<Rightarrow> string) \<Rightarrow> jsval \<Rightarrow> string \<Rightarrow> string_options \<Rightarrow> error + string" where
  "validateString ns value fieldName options =
    (let required = (case opt_required options of None \<Rightarrow> True | Some r \<Rightarrow> r);
         maxLength = (case opt_maxLength options of None \<Rightarrow> Fin 255 | Some m \<Rightarrow> m);
         minLength = opt_minLength options;
         sanitize = (case opt_sanitize options of None \<Rightarrow> True | Some b \<Rightarrow> b)
     in case value of
          Str s \<Rightarrow>
            if required \<and> (s = [] \<or> trim s = [])
              then Inl (Error (fieldName @ '' is required and must be non-empty''))
            else if \<not> required \<and> s = [] then Inr []
            else
              let trimmedLength = length_num (trim s) in
              (case minLength of
                 Some mn \<Rightarrow>
                   if js_lt trimmedLength mn
                     then Inl (Error (fieldName @ '' must be at least '' @ ns mn @ '' characters''))
                   else if js_gt trimmedLength maxLength
                     then Inl (Error (fieldName @ '' must not exceed '' @ ns maxLength @ '' characters''))
                   else Inr (if sanitize then escape s else s)
               | None \<Rightarrow>
                   if js_gt trimmedLength maxLength
                     then Inl (Error (fieldName @ '' must not exceed '' @ ns maxLength @ '' characters''))
                   else Inr (if sanitize then escape s else s))
        | Null \<Rightarrow>
            if required then Inl (Error (fieldName @ '' is required and must be non-empty''))
            else Inr []
        | Undefined \<Rightarrow>
            if required then Inl (Error (fieldName @ '' is required and must be non-empty''))
            else Inr []
        | _ \<Rightarrow> Inl (Error (fieldName @ '' must be a string'')))"

text \<open>The result \<open>None\<close> is \<^verbatim>\<open>null\<close>.\<close>

definition validateOptionalString ::
  "(jsnum \<Rightarrow> string) \<Rightarrow> jsval \<Rightarrow> string \<Rightarrow> string_options \<Rightarrow> error + string option" where
  "validateOptionalString ns value fieldName options =
    (if value = Null \<or> value = Undefined then Inr None
     else case validateString ns value fieldName (options\<lparr>opt_required := Some False\<rparr>) of
            Inl e \<Rightarrow> Inl e
          | Inr s \<Rightarrow> Inr (Some s))"

section \<open>The client\<close>

text \<open>The field \<open>apiKey\<close> is \<open>None\<close> when the property holds \<^verbatim>\<open>null\<close>.\<close>

record grocy =
  baseUrl :: string
  apiKey :: "string option"

text \<open>The options that the constructor and \<open>setApiKey\<close> pass: \<^verbatim>\<open>{ minLength: 1, sanitize: false }\<close>.\<close>

definition exact_options :: string_options where
  "exact_options = no_options\<lparr>opt_minLength := Some (Fin 1), opt_sanitize := Some False\<rparr>"

text \<open>\<^verbatim>\<open>validatedApiKey ? Object.freeze(validatedApiKey) : null\<close>\<close>

definition key_or_null :: "string option \<Rightarrow> string option" where
  "key_or_null validatedApiKey =
    (case validatedApiKey of None \<Rightarrow> None | Some k \<Rightarrow> if k \<noteq> [] then Some k else None)"

text \<open>\<^verbatim>\<open>validatedBaseUrl.endsWith('/api') ? validatedBaseUrl : `${validatedBaseUrl}/api`\<close>\<close>

definition normalizeBaseUrl :: "string \<Rightarrow> string" where
  "normalizeBaseUrl validatedBaseUrl =
    (if endsWith validatedBaseUrl ''/api'' then validatedBaseUrl else validatedBaseUrl @ ''/api'')"

definition constructor :: "(jsnum \<Rightarrow> string) \<Rightarrow> jsval \<Rightarrow> jsval \<Rightarrow> error + grocy" where
  "constructor ns baseUrl_arg apiKey_arg =
    (case validateString ns baseUrl_arg ''Base URL'' exact_options of
       Inl e \<Rightarrow> Inl e
     | Inr validatedBaseUrl \<Rightarrow>
         (case validateOptionalString ns apiKey_arg ''API key'' exact_options of
            Inl e \<Rightarrow> Inl e
          | Inr validatedApiKey \<Rightarrow>
              Inr \<lparr>baseUrl = normalizeBaseUrl validatedBaseUrl,
                   apiKey = key_or_null validatedApiKey\<rparr>))"

definition setApiKey :: "(jsnum \<Rightarrow> string) \<Rightarrow> grocy \<Rightarrow> jsval \<Rightarrow> error + grocy" where
  "setApiKey ns this apiKey_arg =
    (case validateOptionalString ns apiKey_arg ''API key'' exact_options of
       Inl e \<Rightarrow> Inl e
     | Inr validatedApiKey \<Rightarrow> Inr (this\<lparr>apiKey := key_or_null validatedApiKey\<rparr>))"

section \<open>The transport\<close>

text \<open>
  A \<open>url\<close> is the object that \<^verbatim>\<open>new URL\<close> builds and that the client hands to the
  transport: \<open>href\<close> is the string from which it was built, and \<open>searchParams\<close> are the
  name and value pairs that it holds then, in order: those that the parser found in the
  string, followed by those that \<^verbatim>\<open>url.searchParams.append\<close> added.  The request options
  hold the method, the headers and the body; a response is what the client reads of it: the
  status, the flag \<^verbatim>\<open>ok\<close>, the header \<^verbatim>\<open>content-type\<close> (\<open>None\<close> when \<^verbatim>\<open>headers.get\<close>
  answers \<^verbatim>\<open>null\<close>), and the results of \<^verbatim>\<open>response.json()\<close> and \<^verbatim>\<open>response.text()\<close>,
  each a value or the error with which the promise rejects.
\<close>

record url =
  href :: string
  searchParams :: "(string \<times> string) list"

record request_options =
  http_method :: string
  headers :: "(string \<times> string) list"
  body :: "string option"

record response =
  status :: nat
  ok :: bool
  content_type :: "string option"
  json :: "error + jsval"
  text_body :: "error + string"

text \<open>
  The environment of a call: the number printer, \<^verbatim>\<open>JSON.stringify\<close>, the URL parser
  (\<open>Inl e\<close> when \<^verbatim>\<open>new URL\<close> throws \<open>e\<close>, and otherwise the query pairs that it finds in
  the string) and \<^verbatim>\<open>fetch\<close> (\<open>Inl e\<close> when it rejects).
\<close>

record env =
  number_text :: "jsnum \<Rightarrow> string"
  JSON_stringify :: "jsval \<Rightarrow> string"
  new_URL :: "string \<Rightarrow> error + (string \<times> string) list"
  fetch :: "url \<Rightarrow> request_options \<Rightarrow> error + response"

text \<open>What a call does besides returning, in the order in which it does it.\<close>

datatype event =
    NewURL string
  | Append string string
  | Fetch url request_options
  | HeadersGet string
  | ReadJson
  | ReadText

text \<open>
  What a call returns: a plain value, or the object \<^verbatim>\<open>{ success: true, response }\<close>
  that carries the transport's response.
\<close>

datatype retval = Val jsval | SuccessWith response

section \<open>The request dispatcher\<close>

text \<open>
  \<^verbatim>\<open>Object.entries\<close> of the query parameters: the properties of an object, the indexed
  elements of an array or of a string, nothing for the other primitives.
\<close>

definition indexed :: "jsval list \<Rightarrow> (string \<times> jsval) list" where
  "indexed xs = map (\<lambda>i. (nat_text i, xs ! i)) [0 ..< length xs]"

fun Object_entries :: "jsval \<Rightarrow> (string \<times> jsval) list" where
  "Object_entries (Obj es) = es"
| "Object_entries (Arr xs) = indexed xs"
| "Object_entries (Str s) = indexed (map (\<lambda>c. Str [c]) s)"
| "Object_entries _ = []"

text \<open>
  The loops over the query parameters.  Each returns the pairs that it appended, and the error
  that ended it when a conversion threw: the pairs appended before stay appended.
  \<open>append_elements\<close> is \<^verbatim>\<open>value.forEach((v) => url.searchParams.append(`${key}[]`, v))\<close>,
  \<open>entry_pairs\<close> is the body of the loop over the entries and \<open>append_entries\<close> is that loop.
\<close>

fun append_elements ::
  "(jsnum \<Rightarrow> string) \<Rightarrow> string \<Rightarrow> jsval list \<Rightarrow> error option \<times> (string \<times> string) list" where
  "append_elements ns key [] = (None, [])"
| "append_elements ns key (v # vs) =
     (case ToString ns v of
        Inl e \<Rightarrow> (Some e, [])
      | Inr t \<Rightarrow>
          (case append_elements ns key vs of (thrown, ps) \<Rightarrow> (thrown, (key @ ''[]'', t) # ps)))"

fun entry_pairs ::
  "(jsnum \<Rightarrow> string) \<Rightarrow> string \<times> jsval \<Rightarrow> error option \<times> (string \<times> string) list" where
  "entry_pairs ns (key, Arr vs) = append_elements ns key vs"
| "entry_pairs ns (key, Undefined) = (None, [])"
| "entry_pairs ns (key, Null) = (None, [])"
| "entry_pairs ns (key, value) =
     (case toString_method ns value of
        Inl e \<Rightarrow> (Some e, [])
      | Inr t \<Rightarrow> (None, [(key, t)]))"

fun append_entries ::
  "(jsnum \<Rightarrow> string) \<Rightarrow> (string \<times> jsval) list \<Rightarrow> error option \<times> (string \<times> string) list" where
  "append_entries ns [] = (None, [])"
| "append_entries ns (entry # entries) =
     (case entry_pairs ns entry of
        (Some e, ps) \<Rightarrow> (Some e, ps)
      | (None, ps) \<Rightarrow>
          (case append_entries ns entries of (thrown, qs) \<Rightarrow> (thrown, ps @ qs)))"

definition query_pairs ::
  "(jsnum \<Rightarrow> string) \<Rightarrow> jsval \<Rightarrow> error option \<times> (string \<times> string) list" where
  "query_pairs ns queryParams =
    (if truthy queryParams \<and> length (Object_entries queryParams) > 0
     then append_entries ns (Object_entries queryParams)
     else (None, []))"

text \<open>
  The read \<^verbatim>\<open>jsonData.error_message\<close>: a property of an object, \<^verbatim>\<open>undefined\<close> on the
  other values, and a \<^verbatim>\<open>TypeError\<close> on \<^verbatim>\<open>null\<close> and \<^verbatim>\<open>undefined\<close>.
\<close>

fun error_message_of :: "jsval \<Rightarrow> error + jsval" where
  "error_message_of (Obj es) =
     (case map_of es ''error_message'' of None \<Rightarrow> Inr Undefined | Some v \<Rightarrow> Inr v)"
| "error_message_of Null =
     Inl (TypeError ''Cannot read properties of null (reading 'error_message')'')"
| "error_message_of Undefined =
     Inl (TypeError ''Cannot read properties of undefined (reading 'error_message')'')"
| "error_message_of _ = Inr Undefined"

text \<open>
  \<^verbatim>\<open>new Error(jsonData.error_message || `HTTP error! status: ${response.status}`)\<close>:
  \<open>Inl\<close> is the error that the evaluation of the expression throws, \<open>Inr\<close> the error that it
  builds; the constructor converts a message that is not a string with \<^verbatim>\<open>ToString\<close>.
\<close>

definition http_error :: "(jsnum \<Rightarrow> string) \<Rightarrow> response \<Rightarrow> string" where
  "http_error ns response = ''HTTP error! status: '' @ ns (Fin (of_nat (status response)))"

definition status_error :: "(jsnum \<Rightarrow> string) \<Rightarrow> response \<Rightarrow> jsval \<Rightarrow> error + error" where
  "status_error ns response jsonData =
    (case error_message_of jsonData of
       Inl e \<Rightarrow> Inl e
     | Inr m \<Rightarrow>
         if truthy m then (case ToString ns m of Inl e \<Rightarrow> Inl e | Inr t \<Rightarrow> Inr (Error t))
         else Inr (Error (http_error ns response)))"

text \<open>\<^verbatim>\<open>catch (error) { throw new Error(`Grocy API request failed: ${error.message}`) }\<close>\<close>

definition wrap :: "error \<Rightarrow> error" where
  "wrap e = Error (''Grocy API request failed: '' @ message e)"

definition success :: jsval where
  "success = Obj [(''success'', Bool True)]"

text \<open>
  The statements of the \<^verbatim>\<open>try\<close> block after \<^verbatim>\<open>fetch\<close> has answered: the outcome
  before the \<^verbatim>\<open>catch\<close> clause, and the reads of the response.
\<close>

definition handle_response :: "(jsnum \<Rightarrow> string) \<Rightarrow> response \<Rightarrow> (error + retval) \<times> event list" where
  "handle_response ns response =
    (if status response = 204 then (Inr (Val success), [])
     else
       let contentType = content_type response;
           hasType = (\<lambda>t. case contentType of None \<Rightarrow> False | Some ct \<Rightarrow> ct \<noteq> [] \<and> str_includes ct t)
       in
       if hasType ''application/json'' then
         (case json response of
            Inl e \<Rightarrow> (Inl e, [HeadersGet ''content-type'', ReadJson])
          | Inr jsonData \<Rightarrow>
              (if \<not> ok response then
                 (case status_error ns response jsonData of Inl e \<Rightarrow> Inl e | Inr e \<Rightarrow> Inl e)
               else Inr (Val jsonData),
               [HeadersGet ''content-type'', ReadJson]))
       else if hasType ''text/calendar'' then
         (case text_body response of
            Inl e \<Rightarrow> (Inl e, [HeadersGet ''content-type'', ReadText])
          | Inr textData \<Rightarrow>
              (Inr (Val (Obj [(''calendar'', Str textData)])), [HeadersGet ''content-type'', ReadText]))
       else if ok response then (Inr (SuccessWith response), [HeadersGet ''content-type''])
       else (Inl (Error (http_error ns response)), [HeadersGet ''content-type'']))"

definition catch_wrap :: "error + retval \<Rightarrow> error + retval" where
  "catch_wrap r = (case r of Inl e \<Rightarrow> Inl (wrap e) | Inr v \<Rightarrow> Inr v)"

text \<open>The URL and the options that \<open>request\<close> hands to \<^verbatim>\<open>fetch\<close>, when it does.\<close>

definition request_url :: "env \<Rightarrow> grocy \<Rightarrow> string \<Rightarrow> jsval \<Rightarrow> url" where
  "request_url env this endpoint queryParams =
    \<lparr>href = baseUrl this @ endpoint,
     searchParams =
       (case new_URL env (baseUrl this @ endpoint) of Inl e \<Rightarrow> [] | Inr initial \<Rightarrow> initial) @
       snd (query_pairs (number_text env) queryParams)\<rparr>"

definition request_init :: "env \<Rightarrow> string \<Rightarrow> string \<Rightarrow> jsval \<Rightarrow> request_options" where
  "request_init env key method data =
    \<lparr>http_method = method,
     headers = [(''GROCY-API-KEY'', key), (''Content-Type'', ''application/json'')],
     body = (if truthy data \<and> (method = ''POST'' \<or> method = ''PUT'')
             then Some (JSON_stringify env data) else None)\<rparr>"

definition request ::
  "env \<Rightarrow> grocy \<Rightarrow> string \<Rightarrow> string \<Rightarrow> jsval \<Rightarrow> jsval \<Rightarrow> (error + retval) \<times> event list" where
  "request env this endpoint method data queryParams =
    (let key = (case apiKey this of None \<Rightarrow> [] | Some k \<Rightarrow> k) in
     if apiKey this = None \<or> key = []
       then (Inl (Error ''API key is required. Use setApiKey() to set it.''), [])
     else
       (case new_URL env (baseUrl this @ endpoint) of
          Inl e \<Rightarrow> (Inl e, [NewURL (baseUrl this @ endpoint)])
        | Inr initial \<Rightarrow>
            (case query_pairs (number_text env) queryParams of
               (Some e, appended) \<Rightarrow>
                 (Inl e, NewURL (baseUrl this @ endpoint) # map (\<lambda>(k, v). Append k v) appended)
             | (None, appended) \<Rightarrow>
                 let url = request_url env this endpoint queryParams;
                     options = request_init env key method data;
                     before = NewURL (baseUrl this @ endpoint) #
                              map (\<lambda>(k, v). Append k v) appended @ [Fetch url options]
                 in (case fetch env url options of
                       Inl e \<Rightarrow> (Inl (wrap e), before)
                     | Inr response \<Rightarrow>
                         let (r, reads) = handle_response (number_text env) response
                         in (catch_wrap r, before @ reads)))))"

section \<open>The file operations\<close>

text \<open>\<^verbatim>\<open>{ minLength: 1, maxLength: n, sanitize: false }\<close> and \<^verbatim>\<open>{ minLength: 1, maxLength: n }\<close>\<close>

definition path_options :: "rat \<Rightarrow> string_options" where
  "path_options n =
    no_options\<lparr>opt_minLength := Some (Fin 1), opt_maxLength := Some (Fin n), opt_sanitize := Some False\<rparr>"

definition upload_options :: "rat \<Rightarrow> string_options" where
  "upload_options n = no_options\<lparr>opt_minLength := Some (Fin 1), opt_maxLength := Some (Fin n)\<rparr>"

text \<open>The read \<^verbatim>\<open>options.force_serve_as\<close> of an object given by its properties.\<close>

definition property :: "(string \<times> jsval) list \<Rightarrow> string \<Rightarrow> jsval" where
  "property es name = (case map_of es name of None \<Rightarrow> Undefined | Some v \<Rightarrow> v)"

text \<open>
  An object enumerates the keys that are array indices (canonical decimal numerals below
  \<open>2^32 - 1\<close>) before its other keys.  In \<^verbatim>\<open>{ force_serve_as: v, ...rest }\<close> the indices of
  \<open>rest\<close> therefore come before \<^verbatim>\<open>force_serve_as\<close>.
\<close>

definition is_digit :: "char \<Rightarrow> bool" where
  "is_digit c = ((48::nat) \<le> of_char c \<and> of_char c \<le> (57::nat))"

definition text_nat :: "string \<Rightarrow> nat" where
  "text_nat k = foldl (\<lambda>a c. 10 * a + (of_char c - (48::nat))) (0::nat) k"

definition is_array_index :: "string \<Rightarrow> bool" where
  "is_array_index k =
    (k \<noteq> [] \<and> list_all is_digit k \<and> (k = ''0'' \<or> take 1 k \<noteq> ''0'') \<and> text_nat k < 4294967295)"

definition literal_with_rest ::
  "string \<times> jsval \<Rightarrow> (string \<times> jsval) list \<Rightarrow> (string \<times> jsval) list" where
  "literal_with_rest first rest =
    filter (\<lambda>(key, value). is_array_index key) rest @ first #
    filter (\<lambda>(key, value). \<not> is_array_index key) rest"

definition getFile ::
  "env \<Rightarrow> grocy \<Rightarrow> jsval \<Rightarrow> jsval \<Rightarrow> (string \<times> jsval) list \<Rightarrow> (error + retval) \<times> event list" where
  "getFile env this fileGroup fileName options =
    (case validateString (number_text env) fileGroup ''File group'' (path_options 100) of
       Inl e \<Rightarrow> (Inl e, [])
     | Inr validGroup \<Rightarrow>
     (case validateString (number_text env) fileName ''File name'' (path_options 255) of
       Inl e \<Rightarrow> (Inl e, [])
     | Inr validName \<Rightarrow>
     (case validateOptionalString (number_text env) (property options ''force_serve_as'')
             ''Force serve as'' (no_options\<lparr>opt_maxLength := Some (Fin 100)\<rparr>) of
       Inl e \<Rightarrow> (Inl e, [])
     | Inr force_serve_as \<Rightarrow>
         let rest = filter (\<lambda>(key, value). key \<noteq> ''force_serve_as'') options;
             validatedOptions = literal_with_rest
               (''force_serve_as'', (case force_serve_as of None \<Rightarrow> Null | Some s \<Rightarrow> Str s)) rest
         in request env this (''/files/'' @ validGroup @ ''/'' @ validName) ''GET'' Null
              (Obj validatedOptions))))"

text \<open>
  The file data is \<open>None\<close> when the argument is \<^verbatim>\<open>null\<close> or \<^verbatim>\<open>undefined\<close>, and the bytes
  of the blob or typed array otherwise (an object, which is truthy also when it is empty).
\<close>

definition uploadFile ::
  "env \<Rightarrow> grocy \<Rightarrow> jsval \<Rightarrow> jsval \<Rightarrow> string option \<Rightarrow> (error + retval) \<times> event list" where
  "uploadFile env this fileGroup fileName fileData =
    (case validateString (number_text env) fileGroup ''File group'' (upload_options 100) of
       Inl e \<Rightarrow> (Inl e, [])
     | Inr validGroup \<Rightarrow>
     (case validateString (number_text env) fileName ''File name'' (upload_options 255) of
       Inl e \<Rightarrow> (Inl e, [])
     | Inr validName \<Rightarrow>
     (case fileData of
       None \<Rightarrow> (Inl (Error ''File data is required''), [])
     | Some bytes \<Rightarrow>
         let key = (case apiKey this of None \<Rightarrow> [] | Some k \<Rightarrow> k) in
         if apiKey this = None \<or> key = []
           then (Inl (Error ''API key is required. Use setApiKey() to set it.''), [])
         else
           let target = baseUrl this @ ''/files/'' @ validGroup @ ''/'' @ validName in
           (case new_URL env target of
              Inl e \<Rightarrow> (Inl e, [NewURL target])
            | Inr initial \<Rightarrow>
                let url = \<lparr>href = target, searchParams = initial\<rparr>;
                    options = \<lparr>http_method = ''PUT'', headers = [(''GROCY-API-KEY'', key)],
                                body = Some bytes\<rparr>;
                    before = [NewURL target, Fetch url options]
                in (case fetch env url options of
                      Inl e \<Rightarrow> (Inl (wrap e), before)
                    | Inr response \<Rightarrow>
                        if \<not> ok response then
                          (case json response of
                             Inl e \<Rightarrow> (Inl (wrap e), before @ [ReadJson])
                           | Inr errorData \<Rightarrow>
                               (case status_error (number_text env) response errorData of
                                  Inl e \<Rightarrow> (Inl (wrap e), before @ [ReadJson])
                                | Inr e \<Rightarrow> (Inl (wrap e), before @ [ReadJson])))
                        else (Inr (Val success), before))))))"

definition deleteFile ::
  "env \<Rightarrow> grocy \<Rightarrow> jsval \<Rightarrow> jsval \<Rightarrow> (error + retval) \<times> event list" where
  "deleteFile env this fileGroup fileName =
    (case validateString (number_text env) fileGroup ''File group'' (path_options 100) of
       Inl e \<Rightarrow> (Inl e, [])
     | Inr validGroup \<Rightarrow>
     (case validateString (number_text env) fileName ''File name'' (path_options 255) of
       Inl e \<Rightarrow> (Inl e, [])
     | Inr validName \<Rightarrow>
         request env this (''/files/'' @ validGroup @ ''/'' @ validName) ''DELETE'' Null (Obj [])))"

section \<open>Example environment\<close>

text \<open>
  The environment of the examples: a transport that answers every call with the same
  response, and the parser and \<^verbatim>\<open>JSON.stringify\<close> on the inputs of the examples.  A string
  that starts with \<^verbatim>\<open>https://h/\<close> and has no question mark parses to a URL without
  query pairs, and the empty object prints as \<^verbatim>\<open>{}\<close>; both functions are left unspecified
  elsewhere.
\<close>

definition sample_URL :: "string \<Rightarrow> error + (string \<times> string) list" where
  "sample_URL s =
    (if startsWith s ''https://h/'' \<and> CHR ''?'' \<notin> set s then Inr [] else undefined)"

definition sample_stringify :: "jsval \<Rightarrow> string" where
  "sample_stringify v = (if v = Obj [] then ''{}'' else undefined)"

definition answering :: "response \<Rightarrow> env" where
  "answering r =
    \<lparr>number_text = num_text, JSON_stringify = sample_stringify, new_URL = sample_URL,
     fetch = (\<lambda>u i. Inr r)\<rparr>"

definition client :: "string option \<Rightarrow> grocy" where
  "client k = \<lparr>baseUrl = ''https://h/api'', apiKey = k\<rparr>"

definition no_content :: response where
  "no_content =
    \<lparr>status = 204, ok = True, content_type = Some ''application/json'',
     json = Inl (Error ''Unexpected end of JSON input''), text_body = Inr []\<rparr>"

text \<open>A response as \<^verbatim>\<open>fetch\<close> builds it: the flag \<^verbatim>\<open>ok\<close> holds for the statuses 200 to 299.\<close>

definition responding ::
  "nat \<Rightarrow> string option \<Rightarrow> error + jsval \<Rightarrow> error + string \<Rightarrow> response" where
  "responding st ct j t =
    \<lparr>status = st, ok = (200 \<le> st \<and> st \<le> 299), content_type = ct, json = j, text_body = t\<rparr>"

definition json_answer :: "nat \<Rightarrow> jsval \<Rightarrow> response" where
  "json_answer st v = responding st (Some ''application/json'') (Inr v) (Inl (Error ''body used''))"

definition calendar_answer :: "nat \<Rightarrow> string \<Rightarrow> response" where
  "calendar_answer st t =
    responding st (Some ''text/calendar'') (Inl (Error ''Unexpected token B in JSON'')) (Inr t)"

text \<open>The query pairs of a given name, in the order in which they occur in the URL.\<close>

definition named :: "string \<Rightarrow> (string \<times> string) list \<Rightarrow> (string \<times> string) list" where
  "named n ps = filter (\<lambda>p. fst p = n) ps"

text \<open>The URLs that a call handed to the transport, in order.\<close>

fun fetched :: "event list \<Rightarrow> url list" where
  "fetched [] = []"
| "fetched (Fetch u i # es) = u # fetched es"
| "fetched (e # es) = fetched es"

text \<open>
  The pairs of an entry as the specification words them: one pair \<open>name[]\<close> per element of a
  sequence, in order; no pair for \<^verbatim>\<open>null\<close> and \<^verbatim>\<open>undefined\<close>; one pair of the name and
  the string form for any other value.
\<close>

fun spec_pairs :: "(jsnum \<Rightarrow> string) \<Rightarrow> string \<times> jsval \<Rightarrow> (string \<times> string) list" where
  "spec_pairs ns (name, Arr vs) = map (\<lambda>v. (name @ ''[]'', string_form ns v)) vs"
| "spec_pairs ns (name, Undefined) = []"
| "spec_pairs ns (name, Null) = []"
| "spec_pairs ns (name, value) = [(name, string_form ns value)]"

text \<open>The events that read the response.\<close>

fun is_read :: "event \<Rightarrow> bool" where
  "is_read (HeadersGet h) = True"
| "is_read ReadJson = True"
| "is_read ReadText = True"
| "is_read _ = False"

section \<open>Values that have a string form\<close>

lemma ToString_stringable:
  "stringable v \<Longrightarrow> ToString ns v = Inr (string_form ns v)"
  "list_all stringable xs \<Longrightarrow>
     join_elements ns xs =
       Inr (map (\<lambda>x. if x = Undefined \<or> x = Null then [] else string_form ns x) xs)"
  by (induction ns v and ns xs rule: ToString_join_elements.induct) auto

lemma toString_method_stringable:
  "stringable v \<Longrightarrow> v \<noteq> Null \<Longrightarrow> v \<noteq> Undefined \<Longrightarrow>
   toString_method ns v = Inr (string_form ns v)"
  by (cases v) (simp_all add: ToString_stringable)

lemma append_elements_stringable:
  "list_all stringable vs \<Longrightarrow>
   append_elements ns key vs = (None, map (\<lambda>v. (key @ ''[]'', string_form ns v)) vs)"
  by (induction vs) (simp_all add: ToString_stringable)

lemma entry_pairs_stringable:
  "stringable v \<Longrightarrow> entry_pairs ns (k, v) = (None, spec_pairs ns (k, v))"
  by (cases v) (simp_all add: append_elements_stringable ToString_stringable)

lemma append_entries_stringable:
  "list_all (\<lambda>(k, v). stringable v) es \<Longrightarrow>
   append_entries ns es = (None, concat (map (spec_pairs ns) es))"
proof (induction es)
  case Nil
  then show ?case by simp
next
  case (Cons e es)
  obtain k v where e: "e = (k, v)" by (cases e)
  with Cons.prems have "stringable v" by simp
  then have "entry_pairs ns e = (None, spec_pairs ns e)"
    unfolding e by (rule entry_pairs_stringable)
  moreover from Cons have "append_entries ns es = (None, concat (map (spec_pairs ns) es))"
    by simp
  ultimately show ?case by simp
qed

lemma query_pairs_Obj:
  "list_all (\<lambda>(k, v). stringable v) es \<Longrightarrow>
   query_pairs ns (Obj es) = (None, concat (map (spec_pairs ns) es))"
  by (cases es) (simp_all add: query_pairs_def append_entries_stringable del: append_entries.simps)

section \<open>The events of a request\<close>

lemma append_events_not_read: "filter is_read (map (\<lambda>(k, v). Append k v) ps) = []"
  by (induction ps) auto

lemma append_events_not_fetch: "Fetch u i \<notin> set (map (\<lambda>(k, v). Append k v) ps)"
  by (induction ps) auto

lemma handle_response_reads_only: "Fetch u i \<notin> set (snd (handle_response ns r))"
  by (simp add: handle_response_def Let_def split: sum.splits)

lemma fetched_append: "fetched (xs @ ys) = fetched xs @ fetched ys"
  by (induction xs rule: fetched.induct) simp_all

lemma fetched_appends: "fetched (map (\<lambda>(k, v). Append k v) ps) = []"
  by (induction ps) auto

lemma fetched_reads: "fetched (snd (handle_response ns r)) = []"
  by (simp add: handle_response_def Let_def split: sum.splits)

lemma request_dispatched:
  assumes "apiKey this = Some key" and "key \<noteq> []"
    and "new_URL env (baseUrl this @ endpoint) = Inr initial"
    and "query_pairs (number_text env) queryParams = (None, appended)"
  shows "request env this endpoint method data queryParams =
    (let url = request_url env this endpoint queryParams;
         options = request_init env key method data;
         before = NewURL (baseUrl this @ endpoint) #
                  map (\<lambda>(k, v). Append k v) appended @ [Fetch url options]
     in case fetch env url options of
          Inl e \<Rightarrow> (Inl (wrap e), before)
        | Inr response \<Rightarrow>
            (catch_wrap (fst (handle_response (number_text env) response)),
             before @ snd (handle_response (number_text env) response)))"
  using assms by (simp add: request_def Let_def split: sum.splits prod.splits)

lemma fetch_in_trace:
  assumes "Fetch u opts \<in> set (snd (request env this endpoint method data queryParams))"
  shows "\<exists>key initial appended. apiKey this = Some key \<and> key \<noteq> [] \<and>
           new_URL env (baseUrl this @ endpoint) = Inr initial \<and>
           query_pairs (number_text env) queryParams = (None, appended) \<and>
           u = request_url env this endpoint queryParams \<and>
           opts = request_init env key method data"
proof (cases "apiKey this")
  case None
  with assms show ?thesis by (simp add: request_def)
next
  case (Some key)
  show ?thesis
  proof (cases "key = []")
    case True
    with Some assms show ?thesis by (simp add: request_def)
  next
    case False
    show ?thesis
    proof (cases "new_URL env (baseUrl this @ endpoint)")
      case (Inl e)
      with \<open>apiKey this = Some key\<close> False assms show ?thesis by (simp add: request_def)
    next
      case (Inr initial)
      obtain thrown appended where
        q: "query_pairs (number_text env) queryParams = (thrown, appended)"
        by (cases "query_pairs (number_text env) queryParams")
      show ?thesis
      proof (cases thrown)
        case (Some e)
        with q Inr \<open>apiKey this = Some key\<close> False assms append_events_not_fetch
        show ?thesis by (simp add: request_def)
      next
        case None
        with q have q': "query_pairs (number_text env) queryParams = (None, appended)"
          by simp
        from assms have "u = request_url env this endpoint queryParams \<and>
             opts = request_init env key method data"
          unfolding request_dispatched [OF \<open>apiKey this = Some key\<close> False Inr q']
          using append_events_not_fetch handle_response_reads_only
          by (auto simp: Let_def split: sum.splits)
        with \<open>apiKey this = Some key\<close> False Inr q' show ?thesis by simp
      qed
    qed
  qed
qed

lemma request_answered:
  assumes "Fetch u opts \<in> set (snd (request env this endpoint method data queryParams))"
    and "fetch env u opts = Inr response"
  shows "fst (request env this endpoint method data queryParams) =
           catch_wrap (fst (handle_response (number_text env) response))"
proof -
  from fetch_in_trace [OF assms(1)] obtain key initial appended where
    k: "apiKey this = Some key" "key \<noteq> []"
       "new_URL env (baseUrl this @ endpoint) = Inr initial"
       "query_pairs (number_text env) queryParams = (None, appended)"
    and u: "u = request_url env this endpoint queryParams"
    and o: "opts = request_init env key method data"
    by blast
  show ?thesis
    unfolding request_dispatched [OF k] using assms(2) u o by (simp add: Let_def)
qed

lemma fetch_event_present:
  assumes "apiKey this = Some key" and "key \<noteq> []"
    and "new_URL env (baseUrl this @ endpoint) = Inr initial"
    and "query_pairs (number_text env) queryParams = (None, appended)"
  shows "Fetch (request_url env this endpoint queryParams) (request_init env key method data)
           \<in> set (snd (request env this endpoint method data queryParams))"
  unfolding request_dispatched [OF assms] by (simp add: Let_def split: sum.splits)

lemma request_fetched:
  assumes "apiKey this = Some key" and "key \<noteq> []"
    and "new_URL env (baseUrl this @ endpoint) = Inr initial"
    and "query_pairs (number_text env) queryParams = (None, appended)"
  shows "fetched (snd (request env this endpoint method data queryParams)) =
           [\<lparr>href = baseUrl this @ endpoint, searchParams = initial @ appended\<rparr>]"
  unfolding request_dispatched [OF assms]
  using assms(3,4)
  by (simp add: Let_def fetched_append fetched_appends fetched_reads request_url_def
      split: sum.splits)

lemma answering_fetch_event:
  assumes "sample_URL (''https://h/api'' @ endpoint) = Inr []"
    and "query_pairs num_text queryParams = (None, appended)"
  shows "Fetch (request_url (answering r) (client (Some ''key'')) endpoint queryParams)
         (request_init (answering r) ''key'' method data)
     \<in> set (snd (request (answering r) (client (Some ''key'')) endpoint method data queryParams))"
  by (rule fetch_event_present [where initial = "[]" and appended = appended])
     (use assms in \<open>simp_all add: client_def answering_def\<close>)

section \<open>Query pairs\<close>

lemma spec_pairs_names:
  "p \<in> set (spec_pairs ns (k, v)) \<Longrightarrow> fst p = k \<or> fst p = k @ ''[]''"
  by (cases v) auto

lemma named_append: "named n (ps @ qs) = named n ps @ named n qs"
  by (simp add: named_def)

lemma named_others:
  "\<forall>k \<in> fst ` set es. k \<noteq> n \<and> k @ ''[]'' \<noteq> n \<Longrightarrow>
   named n (concat (map (spec_pairs ns) es)) = []"
proof (induction es)
  case Nil
  then show ?case by (simp add: named_def)
next
  case (Cons e es)
  obtain k v where e: "e = (k, v)" by (cases e)
  from Cons.prems e have kn: "k \<noteq> n" "k @ ''[]'' \<noteq> n" by auto
  have "fst p \<noteq> n" if "p \<in> set (spec_pairs ns (k, v))" for p
    using spec_pairs_names [OF that] kn by metis
  then have "named n (spec_pairs ns (k, v)) = []"
    by (simp add: named_def filter_empty_conv)
  moreover from Cons have "named n (concat (map (spec_pairs ns) es)) = []" by simp
  ultimately show ?case using e by (simp add: named_append)
qed

lemma named_in_block:
  assumes "distinct (map fst (before @ (k, v) # after))"
    and "\<forall>k' \<in> fst ` set (before @ after). k' @ ''[]'' \<noteq> k \<and> k' \<noteq> k @ ''[]''"
    and "n = k \<or> n = k @ ''[]''"
  shows "named n (concat (map (spec_pairs ns) (before @ (k, v) # after))) =
         named n (spec_pairs ns (k, v))"
proof -
  have o: "\<forall>k' \<in> fst ` set (before @ after). k' \<noteq> n \<and> k' @ ''[]'' \<noteq> n"
    using assms by auto
  then have "named n (concat (map (spec_pairs ns) before)) = []"
    and "named n (concat (map (spec_pairs ns) after)) = []"
    by (auto intro!: named_others)
  then show ?thesis by (simp add: named_append)
qed

section \<open>Comparisons\<close>

lemma not_js_lt: "a \<noteq> NaN \<Longrightarrow> b \<noteq> NaN \<Longrightarrow> (\<not> js_lt a b) = js_le b a"
  by (cases a; cases b) auto

section \<open>Strings and their validation\<close>






lemma trim_Nil: "trim [] = []"
  by (simp add: trim_def)

lemma length_num_lt_1: "js_lt (length_num s) (Fin 1) = (s = [])"
  by (simp add: length_num_def)

lemma length_num_gt: "js_gt (length_num s) (Fin (of_nat n)) = (n < length s)"
  by (simp add: length_num_def js_gt_def)

text \<open>What a validator without sanitization accepts, and what it returns.\<close>

lemma validateString_raw:
  assumes "opt_sanitize options = Some False" and "opt_required options = None"
    and "opt_minLength options = Some (Fin 1)"
    and "opt_maxLength options = None \<and> n = 255 \<or> opt_maxLength options = Some (Fin (of_nat n))"
  shows "validateString ns v f options = Inr r \<longleftrightarrow>
           v = Str r \<and> trim r \<noteq> [] \<and> length (trim r) \<le> n"
proof (cases v)
  case (Str s)
  have mx: "(case opt_maxLength options of None \<Rightarrow> Fin 255 | Some m \<Rightarrow> m) = Fin (of_nat n)"
    using assms(4) by auto
  show ?thesis
    using Str assms(1-3) mx
    by (auto simp: validateString_def Let_def length_num_lt_1 length_num_gt trim_Nil
        simp del: of_nat_numeral)
qed (simp_all add: validateString_def assms)

lemma length_num_gt_numeral: "js_gt (length_num s) (Fin (numeral n)) = (numeral n < length s)"
  using length_num_gt [of s "numeral n"] by simp

lemma validateString_exact:
  "validateString ns v f exact_options = Inr r \<longleftrightarrow>
     v = Str r \<and> trim r \<noteq> [] \<and> length (trim r) \<le> 255"
  by (rule validateString_raw) (simp_all add: exact_options_def no_options_def)

lemma validateString_optional_exact:
  "validateString ns (Str s) f (exact_options\<lparr>opt_required := Some False\<rparr>) =
    (if s = [] then Inr []
     else if trim s = [] then Inl (Error (f @ '' must be at least '' @ ns (Fin 1) @ '' characters''))
     else if 255 < length (trim s)
       then Inl (Error (f @ '' must not exceed '' @ ns (Fin 255) @ '' characters''))
     else Inr s)"
  by (simp add: validateString_def exact_options_def no_options_def Let_def length_num_lt_1
      length_num_gt_numeral)

lemma validateOptionalString_exact:
  "validateOptionalString ns v f exact_options = Inr r \<longleftrightarrow>
     (v = Null \<or> v = Undefined) \<and> r = None \<or>
     (\<exists>s. v = Str s \<and> r = Some s \<and> (s = [] \<or> trim s \<noteq> [] \<and> length (trim s) \<le> 255))"
proof (cases v)
  case (Str s)
  then have "validateOptionalString ns v f exact_options =
      (case validateString ns (Str s) f (exact_options\<lparr>opt_required := Some False\<rparr>) of
         Inl e \<Rightarrow> Inl e | Inr t \<Rightarrow> Inr (Some t))"
    by (simp add: validateOptionalString_def)
  with Str show ?thesis
    unfolding validateString_optional_exact by (auto simp: not_less)
next
  case Undefined
  then show ?thesis by (auto simp: validateOptionalString_def)
next
  case Null
  then show ?thesis by (auto simp: validateOptionalString_def)
next
  case (Bool x)
  then show ?thesis
    by (simp add: validateOptionalString_def validateString_def)
next
  case (Num x)
  then show ?thesis
    by (simp add: validateOptionalString_def validateString_def)
next
  case (Arr x)
  then show ?thesis
    by (simp add: validateOptionalString_def validateString_def)
next
  case (Obj x)
  then show ?thesis
    by (simp add: validateOptionalString_def validateString_def)
qed

lemma constructor_apiKey:
  "constructor ns b k = Inr c \<Longrightarrow>
   \<exists>r. validateOptionalString ns k ''API key'' exact_options = Inr r \<and> apiKey c = key_or_null r"
  by (auto simp: constructor_def split: sum.splits)

lemma setApiKey_apiKey:
  "setApiKey ns c0 k = Inr c \<Longrightarrow>
   \<exists>r. validateOptionalString ns k ''API key'' exact_options = Inr r \<and> apiKey c = key_or_null r"
  by (auto simp: setApiKey_def split: sum.splits)

lemma key_or_null_validated:
  assumes "validateOptionalString ns k f exact_options = Inr r"
  shows "key_or_null r = None \<and> (k = Null \<or> k = Undefined \<or> k = Str []) \<or>
      (\<exists>s. key_or_null r = Some s \<and> k = Str s \<and> s \<noteq> [] \<and> trim s \<noteq> [] \<and>
           length (trim s) \<le> 255)"
proof -
  from assms have "(k = Null \<or> k = Undefined) \<and> r = None \<or>
     (\<exists>s. k = Str s \<and> r = Some s \<and> (s = [] \<or> trim s \<noteq> [] \<and> length (trim s) \<le> 255))"
    by (simp only: validateOptionalString_exact)
  then consider "k = Null \<or> k = Undefined" "r = None"
    | s where "k = Str s" "r = Some s" "s = []"
    | s where "k = Str s" "r = Some s" "s \<noteq> []" "trim s \<noteq> []" "length (trim s) \<le> 255"
    by blast
  then show ?thesis
  proof cases
    case 1
    then have "key_or_null r = None" by (simp add: key_or_null_def)
    with 1 show ?thesis by blast
  next
    case 2
    then have "key_or_null r = None" by (simp add: key_or_null_def)
    with 2 show ?thesis by blast
  next
    case 3
    then have "key_or_null r = Some s" by (simp add: key_or_null_def)
    with 3 show ?thesis by blast
  qed
qed

section \<open>The paths of the file operations\<close>

text \<open>
  The path that \<open>getFile\<close> and \<open>deleteFile\<close> hand to the transport holds the group and the
  name of the file as the caller wrote them; the path of \<open>uploadFile\<close> holds their escaped
  forms.
\<close>

lemma validateString_path:
  "validateString ns v f (path_options (of_nat n)) = Inr r \<longleftrightarrow>
     v = Str r \<and> trim r \<noteq> [] \<and> length (trim r) \<le> n"
  by (rule validateString_raw) (simp_all add: path_options_def no_options_def)

lemma validateString_upload:
  assumes "validateString ns v f (upload_options n) = Inr r"
  shows "\<exists>s. v = Str s \<and> r = escape s"
proof (cases v)
  case (Str s)
  with assms show ?thesis
    by (auto simp: validateString_def upload_options_def no_options_def Let_def
        split: if_splits)
qed (use assms in \<open>simp_all add: validateString_def upload_options_def no_options_def\<close>)

lemma request_href:
  assumes "Fetch u opts \<in> set (snd (request env this endpoint method data queryParams))"
  shows "href u = baseUrl this @ endpoint"
  using fetch_in_trace [OF assms] by (auto simp: request_url_def)

lemma deleteFile_path:
  assumes "Fetch u opts \<in> set (snd (deleteFile env this g f))"
  shows "\<exists>gs fs. g = Str gs \<and> f = Str fs \<and> href u = baseUrl this @ ''/files/'' @ gs @ ''/'' @ fs"
proof -
  have p: "path_options 100 = path_options (of_nat 100)" "path_options 255 = path_options (of_nat 255)"
    by simp_all
  from assms obtain gs fs where
    g: "validateString (number_text env) g ''File group'' (path_options (of_nat 100)) = Inr gs"
    and f: "validateString (number_text env) f ''File name'' (path_options (of_nat 255)) = Inr fs"
    and t: "Fetch u opts \<in> set (snd (request env this (''/files/'' @ gs @ ''/'' @ fs) ''DELETE''
              Null (Obj [])))"
    unfolding deleteFile_def p by (auto split: sum.splits)
  from g f have "g = Str gs" "f = Str fs"
    by (simp_all only: validateString_path)
  with request_href [OF t] show ?thesis by simp
qed

lemma getFile_path:
  assumes "Fetch u opts \<in> set (snd (getFile env this g f options))"
  shows "\<exists>gs fs. g = Str gs \<and> f = Str fs \<and> href u = baseUrl this @ ''/files/'' @ gs @ ''/'' @ fs"
proof -
  have p: "path_options 100 = path_options (of_nat 100)" "path_options 255 = path_options (of_nat 255)"
    by simp_all
  from assms obtain gs fs qp where
    g: "validateString (number_text env) g ''File group'' (path_options (of_nat 100)) = Inr gs"
    and f: "validateString (number_text env) f ''File name'' (path_options (of_nat 255)) = Inr fs"
    and t: "Fetch u opts \<in> set (snd (request env this (''/files/'' @ gs @ ''/'' @ fs) ''GET''
              Null qp))"
    unfolding getFile_def p by (auto simp: Let_def split: sum.splits)
  from g f have "g = Str gs" "f = Str fs"
    by (simp_all only: validateString_path)
  with request_href [OF t] show ?thesis by simp
qed

lemma uploadFile_path:
  assumes "Fetch u opts \<in> set (snd (uploadFile env this g f d))"
  shows "\<exists>gs fs. g = Str gs \<and> f = Str fs \<and>
           href u = baseUrl this @ ''/files/'' @ escape gs @ ''/'' @ escape fs"
proof -
  from assms obtain vg vf where
    g: "validateString (number_text env) g ''File group'' (upload_options 100) = Inr vg"
    and f: "validateString (number_text env) f ''File name'' (upload_options 255) = Inr vf"
    and h: "href u = baseUrl this @ ''/files/'' @ vg @ ''/'' @ vf"
    unfolding uploadFile_def
    by (auto simp: Let_def split: sum.splits option.splits if_splits)
  from validateString_upload [OF g] validateString_upload [OF f] h show ?thesis by auto
qed

section \<open>Dispatched requests\<close>

lemma answering_result:
  assumes "sample_URL (''https://h/api'' @ endpoint) = Inr []"
    and "query_pairs num_text queryParams = (None, appended)"
  shows "fst (request (answering r) (client (Some ''key'')) endpoint method data queryParams) =
           catch_wrap (fst (handle_response num_text r))"
  using request_answered [OF answering_fetch_event [OF assms], where response = r and r1 = r]
  by (simp add: answering_def)

lemma answering_fetched:
  assumes "sample_URL (''https://h/api'' @ endpoint) = Inr []"
    and "query_pairs num_text queryParams = (None, appended)"
  shows "fetched (snd (request (answering r) (client (Some ''key'')) endpoint method data
            queryParams)) =
           [\<lparr>href = ''https://h/api'' @ endpoint, searchParams = appended\<rparr>]"
  using request_fetched [where env = "answering r" and this = "client (Some ''key'')"
      and key = "''key''" and endpoint = endpoint and initial = "[]" and appended = appended
      and queryParams = queryParams]
    assms
  by (simp add: client_def answering_def)

lemma request_Obj_fetched:
  assumes "apiKey this = Some key" and "key \<noteq> []"
    and "new_URL env (baseUrl this @ endpoint) = Inr initial"
    and "list_all (\<lambda>(k, v). stringable v) es"
  shows "map searchParams (fetched (snd (request env this endpoint method data (Obj es)))) =
           [initial @ concat (map (spec_pairs (number_text env)) es)]"
  using request_fetched [OF assms(1-3) query_pairs_Obj [OF assms(4)]] by simp

section \<open>Claims\<close>

text \<open>
  C1.  Whatever the endpoint, method, body and query parameters, a request on a client whose
  API key is absent throws the error with the fixed message that an API key is required.
  The error is thrown first: no URL is built, no query parameter is appended and the
  transport is not called (the call has no events at all); the method has no access to the
  client but to read it.
\<close>

theorem request_without_apiKey:
  "apiKey this = None \<Longrightarrow>
   request env this endpoint method data queryParams =
     (Inl (Error ''API key is required. Use setApiKey() to set it.''), [])"
  by (simp add: request_def)

theorem request_without_apiKey_witness:
  "apiKey (client None) = None \<and>
   request (answering no_content) (client None) ''/stock'' ''POST'' (Obj [])
       (Obj [(''query'', Arr [Str ''a'', Str ''b''])]) =
     (Inl (Error ''API key is required. Use setApiKey() to set it.''), [])"
  using request_without_apiKey [of "client None" "answering no_content" "''/stock''" "''POST''"
      "Obj []" "Obj [(''query'', Arr [Str ''a'', Str ''b''])]"]
  by (simp add: client_def)

text \<open>
  C2.  When the transport answers a request with a response of status 204, the request
  returns the object \<^verbatim>\<open>{ success: true }\<close>, whatever the content type of the response
  is (a JSON type, another type or none), and it reads neither a header nor the body of the
  response.
\<close>

theorem request_status_204:
  assumes "Fetch u opts \<in> set (snd (request env this endpoint method data queryParams))"
    and "fetch env u opts = Inr response"
    and "status response = 204"
  shows "fst (request env this endpoint method data queryParams) = Inr (Val success) \<and>
         filter is_read (snd (request env this endpoint method data queryParams)) = []"
proof -
  from fetch_in_trace [OF assms(1)] obtain key initial appended where
    k: "apiKey this = Some key" "key \<noteq> []"
       "new_URL env (baseUrl this @ endpoint) = Inr initial"
       "query_pairs (number_text env) queryParams = (None, appended)"
    and u: "u = request_url env this endpoint queryParams"
    and o: "opts = request_init env key method data"
    by blast
  have h: "handle_response (number_text env) response = (Inr (Val success), [])"
    using assms(3) by (simp add: handle_response_def)
  show ?thesis
    unfolding request_dispatched [OF k]
    using assms(2) u o h by (simp add: Let_def catch_wrap_def append_events_not_read)
qed

theorem request_status_204_witness:
  "Fetch (request_url (answering no_content) (client (Some ''key'')) ''/stock'' (Obj []))
         (request_init (answering no_content) ''key'' ''GET'' Null)
     \<in> set (snd (request (answering no_content) (client (Some ''key'')) ''/stock'' ''GET'' Null (Obj []))) \<and>
   fetch (answering no_content)
         (request_url (answering no_content) (client (Some ''key'')) ''/stock'' (Obj []))
         (request_init (answering no_content) ''key'' ''GET'' Null) = Inr no_content \<and>
   status no_content = 204 \<and>
   content_type no_content = Some ''application/json'' \<and>
   fst (request (answering no_content) (client (Some ''key'')) ''/stock'' ''GET'' Null (Obj [])) =
     Inr (Val success) \<and>
   filter is_read
     (snd (request (answering no_content) (client (Some ''key'')) ''/stock'' ''GET'' Null (Obj []))) = []"
proof -
  have a: "Fetch (request_url (answering no_content) (client (Some ''key'')) ''/stock'' (Obj []))
         (request_init (answering no_content) ''key'' ''GET'' Null)
     \<in> set (snd (request (answering no_content) (client (Some ''key'')) ''/stock'' ''GET'' Null (Obj [])))"
    by (rule answering_fetch_event [where appended = "[]"])
       (simp_all add: sample_URL_def query_pairs_def)
  have b: "fetch (answering no_content)
         (request_url (answering no_content) (client (Some ''key'')) ''/stock'' (Obj []))
         (request_init (answering no_content) ''key'' ''GET'' Null) = Inr no_content"
    by (simp add: answering_def)
  have c: "status no_content = 204"
    by (simp add: no_content_def)
  have d: "content_type no_content = Some ''application/json''"
    by (simp add: no_content_def)
  from request_status_204 [OF a b c] a b c d show ?thesis by blast
qed

text \<open>
  C3 (as amended).  When the transport answers with a response whose status is not 204, whose
  content type contains \<^verbatim>\<open>application/json\<close>, whose flag \<^verbatim>\<open>ok\<close> is false (a status
  outside 200 to 299) and whose body parses to a JSON value other than \<^verbatim>\<open>null\<close>, the
  request throws an error whose message is the prefix \<^verbatim>\<open>Grocy API request failed: \<close>
  followed by the string form of the body's field \<^verbatim>\<open>error_message\<close> when the body is an
  object that has the field with a truthy value (for a string: a non-empty one), and followed
  by \<^verbatim>\<open>HTTP error! status: <code>\<close> when the field is missing or falsy.  The value of the
  field is one that has a string form: a primitive, or an array or object that holds no object
  with an own property \<^verbatim>\<open>toString\<close> where it is converted.
\<close>

theorem request_json_failure:
  assumes "Fetch u opts \<in> set (snd (request env this endpoint method data queryParams))"
    and "fetch env u opts = Inr response"
    and "status response \<noteq> 204"
    and "content_type response = Some ct" and "str_includes ct ''application/json''"
    and "\<not> ok response"
    and "json response = Inr jsonData" and "jsonData \<noteq> Null" and "jsonData \<noteq> Undefined"
    and "\<forall>es m. jsonData = Obj es \<and> map_of es ''error_message'' = Some m \<longrightarrow> stringable m"
  shows "fst (request env this endpoint method data queryParams) =
    Inl (Error (''Grocy API request failed: '' @
      (case jsonData of
         Obj es \<Rightarrow>
           (case map_of es ''error_message'' of
              Some m \<Rightarrow>
                if truthy m then string_form (number_text env) m
                else ''HTTP error! status: '' @ number_text env (Fin (of_nat (status response)))
            | None \<Rightarrow> ''HTTP error! status: '' @ number_text env (Fin (of_nat (status response))))
       | _ \<Rightarrow> ''HTTP error! status: '' @ number_text env (Fin (of_nat (status response))))))"
proof -
  have ct: "ct \<noteq> []" using assms(5) by (cases ct) auto
  have h: "fst (handle_response (number_text env) response) =
     (case status_error (number_text env) response jsonData of Inl e \<Rightarrow> Inl e | Inr e \<Rightarrow> Inl e)"
    using assms(3-7) ct by (simp add: handle_response_def Let_def)
  show ?thesis
  proof (cases jsonData)
    case (Obj es)
    show ?thesis
    proof (cases "map_of es ''error_message''")
      case None
      with Obj h show ?thesis
        unfolding request_answered [OF assms(1,2)]
        by (simp add: status_error_def catch_wrap_def wrap_def http_error_def)
    next
      case (Some m)
      with Obj assms(10) have "stringable m" by blast
      then have "ToString (number_text env) m = Inr (string_form (number_text env) m)"
        by (rule ToString_stringable)
      with Obj Some h show ?thesis
        unfolding request_answered [OF assms(1,2)]
        by (simp add: status_error_def catch_wrap_def wrap_def http_error_def)
    qed
  qed (use h assms(8,9) in \<open>simp_all add: request_answered [OF assms(1,2)] status_error_def
        catch_wrap_def wrap_def http_error_def\<close>)
qed

theorem request_json_failure_witness:
  "fst (request (answering (json_answer 400 (Obj [(''error_message'', Str ''Bad request'')])))
         (client (Some ''key'')) ''/stock'' ''GET'' Null (Obj [])) =
     Inl (Error ''Grocy API request failed: Bad request'') \<and>
   fst (request (answering (json_answer 400 (Obj []))) (client (Some ''key'')) ''/stock'' ''GET''
         Null (Obj [])) =
     Inl (Error ''Grocy API request failed: HTTP error! status: 400'')"
proof -
  have n: "num_text (Fin (of_nat 400)) = ''400''"
    by (simp add: int_text_def nat_text.simps digit_char_def)
  have f: "Fetch (request_url (answering r) (client (Some ''key'')) ''/stock'' (Obj []))
             (request_init (answering r) ''key'' ''GET'' Null)
      \<in> set (snd (request (answering r) (client (Some ''key'')) ''/stock'' ''GET'' Null (Obj [])))"
    for r
    by (rule answering_fetch_event [where appended = "[]"])
       (simp_all add: sample_URL_def query_pairs_def)
  have a: "fst (request (answering (json_answer 400 (Obj [(''error_message'', Str ''Bad request'')])))
         (client (Some ''key'')) ''/stock'' ''GET'' Null (Obj [])) =
     Inl (Error ''Grocy API request failed: Bad request'')"
    using request_json_failure [OF f [of "json_answer 400 (Obj [(''error_message'', Str ''Bad request'')])"],
        where response = "json_answer 400 (Obj [(''error_message'', Str ''Bad request'')])"
          and ct = "''application/json''"
          and jsonData = "Obj [(''error_message'', Str ''Bad request'')]"]
    by (simp add: answering_def json_answer_def responding_def)
  have b: "fst (request (answering (json_answer 400 (Obj []))) (client (Some ''key'')) ''/stock'' ''GET''
         Null (Obj [])) =
     Inl (Error ''Grocy API request failed: HTTP error! status: 400'')"
    using request_json_failure [OF f [of "json_answer 400 (Obj [])"],
        where response = "json_answer 400 (Obj [])" and ct = "''application/json''"
          and jsonData = "Obj []"] n
    by (simp add: answering_def json_answer_def responding_def)
  from a b show ?thesis by simp
qed

text \<open>
  The field may be present and the generic message be used all the same: an empty
  \<^verbatim>\<open>error_message\<close> is falsy.
\<close>

theorem request_json_failure_counterexample:
  "status (json_answer 400 (Obj [(''error_message'', Str [])])) \<noteq> 204 \<and>
   \<not> ok (json_answer 400 (Obj [(''error_message'', Str [])])) \<and>
   content_type (json_answer 400 (Obj [(''error_message'', Str [])])) = Some ''application/json'' \<and>
   json (json_answer 400 (Obj [(''error_message'', Str [])])) = Inr (Obj [(''error_message'', Str [])]) \<and>
   map_of [(''error_message'', Str [])] ''error_message'' = Some (Str []) \<and>
   fst (request (answering (json_answer 400 (Obj [(''error_message'', Str [])])))
         (client (Some ''key'')) ''/stock'' ''GET'' Null (Obj [])) =
     Inl (Error ''Grocy API request failed: HTTP error! status: 400'') \<and>
   fst (request (answering (json_answer 400 (Obj [(''error_message'', Str [])])))
         (client (Some ''key'')) ''/stock'' ''GET'' Null (Obj [])) \<noteq>
     Inl (Error (''Grocy API request failed: '' @ string_form num_text (Str [])))"
proof -
  have n: "num_text (Fin (of_nat 400)) = ''400''"
    by (simp add: int_text_def nat_text.simps digit_char_def)
  have "fst (request (answering (json_answer 400 (Obj [(''error_message'', Str [])])))
         (client (Some ''key'')) ''/stock'' ''GET'' Null (Obj [])) =
      catch_wrap (fst (handle_response num_text (json_answer 400 (Obj [(''error_message'', Str [])]))))"
    by (rule answering_result [where appended = "[]"])
       (simp_all add: sample_URL_def query_pairs_def)
  then have "fst (request (answering (json_answer 400 (Obj [(''error_message'', Str [])])))
         (client (Some ''key'')) ''/stock'' ''GET'' Null (Obj [])) =
     Inl (Error ''Grocy API request failed: HTTP error! status: 400'')"
    using n
    by (simp add: json_answer_def responding_def handle_response_def status_error_def
        catch_wrap_def wrap_def http_error_def)
  then show ?thesis
    by (simp add: json_answer_def responding_def)
qed

text \<open>
  C5 (as amended).  When the transport answers with a response whose status is not 204, whose
  content type contains \<^verbatim>\<open>text/calendar\<close> and does not contain
  \<^verbatim>\<open>application/json\<close>, and whose body reads as text, the request returns exactly the
  object \<^verbatim>\<open>{ calendar: <body text> }\<close>, whatever the status and the flag \<^verbatim>\<open>ok\<close> are
  otherwise (failing statuses included).
\<close>

theorem request_calendar:
  assumes "Fetch u opts \<in> set (snd (request env this endpoint method data queryParams))"
    and "fetch env u opts = Inr response"
    and "status response \<noteq> 204"
    and "content_type response = Some ct" and "str_includes ct ''text/calendar''"
    and "\<not> str_includes ct ''application/json''"
    and "text_body response = Inr textData"
  shows "fst (request env this endpoint method data queryParams) =
           Inr (Val (Obj [(''calendar'', Str textData)]))"
proof -
  have ct: "ct \<noteq> []" using assms(5) by (cases ct) auto
  have "fst (handle_response (number_text env) response) =
          Inr (Val (Obj [(''calendar'', Str textData)]))"
    using assms(3-7) ct by (simp add: handle_response_def Let_def)
  then show ?thesis
    unfolding request_answered [OF assms(1,2)] by (simp add: catch_wrap_def)
qed

theorem request_calendar_witness:
  "status (calendar_answer 500 ''BEGIN:VCALENDAR'') \<noteq> 204 \<and>
   \<not> ok (calendar_answer 500 ''BEGIN:VCALENDAR'') \<and>
   fst (request (answering (calendar_answer 500 ''BEGIN:VCALENDAR'')) (client (Some ''key''))
         ''/calendar/ical'' ''GET'' Null (Obj [])) =
     Inr (Val (Obj [(''calendar'', Str ''BEGIN:VCALENDAR'')]))"
proof -
  have f: "Fetch (request_url (answering (calendar_answer 500 ''BEGIN:VCALENDAR''))
               (client (Some ''key'')) ''/calendar/ical'' (Obj []))
             (request_init (answering (calendar_answer 500 ''BEGIN:VCALENDAR'')) ''key'' ''GET'' Null)
      \<in> set (snd (request (answering (calendar_answer 500 ''BEGIN:VCALENDAR''))
            (client (Some ''key'')) ''/calendar/ical'' ''GET'' Null (Obj [])))"
    by (rule answering_fetch_event [where appended = "[]"])
       (simp_all add: sample_URL_def query_pairs_def)
  show ?thesis
    using request_calendar [OF f,
      of "calendar_answer 500 ''BEGIN:VCALENDAR''" "''text/calendar''" "''BEGIN:VCALENDAR''"]
    by (simp add: answering_def calendar_answer_def responding_def)
qed

text \<open>A calendar response of status 204 yields \<^verbatim>\<open>{ success: true }\<close>: the status is tested first.\<close>

theorem request_calendar_counterexample:
  "content_type (calendar_answer 204 ''BEGIN:VCALENDAR'') = Some ''text/calendar'' \<and>
   text_body (calendar_answer 204 ''BEGIN:VCALENDAR'') = Inr ''BEGIN:VCALENDAR'' \<and>
   fst (request (answering (calendar_answer 204 ''BEGIN:VCALENDAR'')) (client (Some ''key''))
         ''/calendar/ical'' ''GET'' Null (Obj [])) = Inr (Val (Obj [(''success'', Bool True)])) \<and>
   fst (request (answering (calendar_answer 204 ''BEGIN:VCALENDAR'')) (client (Some ''key''))
         ''/calendar/ical'' ''GET'' Null (Obj [])) \<noteq>
     Inr (Val (Obj [(''calendar'', Str ''BEGIN:VCALENDAR'')]))"
proof -
  have "fst (request (answering (calendar_answer 204 ''BEGIN:VCALENDAR'')) (client (Some ''key''))
         ''/calendar/ical'' ''GET'' Null (Obj [])) =
      catch_wrap (fst (handle_response num_text (calendar_answer 204 ''BEGIN:VCALENDAR'')))"
    by (rule answering_result [where appended = "[]"])
       (simp_all add: sample_URL_def query_pairs_def)
  then show ?thesis
    by (simp add: calendar_answer_def responding_def handle_response_def catch_wrap_def
        success_def)
qed

text \<open>
  C4 (as amended).  For every mapping of query parameters whose values have a string form,
  passed to a request on a client with an API key and for a URL that parses, the request
  hands exactly one URL to the transport, and the query pairs of that URL are the pairs that
  the parser found in the URL string, then the pairs that the entries before an entry
  \<open>(k, v)\<close> produce when they are passed alone, then the pairs of that entry, then the pairs of
  the entries after it.  The entry produces: for an array \<open>[a, b, c]\<close> exactly the three pairs
  named \<open>k[]\<close> with the string forms of \<open>a\<close>, \<open>b\<close>, \<open>c\<close> in this order, and no pair named
  \<open>k\<close>; for \<^verbatim>\<open>null\<close> and \<^verbatim>\<open>undefined\<close> no pair at all; for any other value exactly the
  one pair of \<open>k\<close> and the string form of the value.  When the keys of the mapping are distinct,
  no other key is \<open>k[]\<close> or has \<open>k\<close> as its own bracketed form, and the URL string holds no
  pair named \<open>k\<close> or \<open>k[]\<close>, these are all the occurrences of \<open>k\<close> and \<open>k[]\<close> in the URL.
\<close>

theorem request_query_pairs:
  assumes "apiKey this = Some key" and "key \<noteq> []"
    and "new_URL env (baseUrl this @ endpoint) = Inr initial"
    and "list_all (\<lambda>(k', v'). stringable v') (before @ (k, v) # after)"
  shows "\<exists>pre block post.
     map searchParams (fetched (snd (request env this endpoint method data (Obj before)))) =
       [initial @ pre] \<and>
     map searchParams (fetched (snd (request env this endpoint method data (Obj [(k, v)])))) =
       [initial @ block] \<and>
     map searchParams (fetched (snd (request env this endpoint method data (Obj after)))) =
       [initial @ post] \<and>
     map searchParams (fetched (snd (request env this endpoint method data
         (Obj (before @ (k, v) # after))))) =
       [initial @ pre @ block @ post] \<and>
     (\<forall>a b c. v = Arr [a, b, c] \<longrightarrow>
        block = [(k @ ''[]'', string_form (number_text env) a),
                 (k @ ''[]'', string_form (number_text env) b),
                 (k @ ''[]'', string_form (number_text env) c)]) \<and>
     (v = Null \<or> v = Undefined \<longrightarrow> block = []) \<and>
     ((\<forall>vs. v \<noteq> Arr vs) \<and> v \<noteq> Null \<and> v \<noteq> Undefined \<longrightarrow>
        block = [(k, string_form (number_text env) v)]) \<and>
     (distinct (map fst (before @ (k, v) # after)) \<and>
      (\<forall>k' \<in> fst ` set (before @ after). k' @ ''[]'' \<noteq> k \<and> k' \<noteq> k @ ''[]'') \<and>
      named k initial = [] \<and> named (k @ ''[]'') initial = [] \<longrightarrow>
        named k (initial @ pre @ block @ post) = named k block \<and>
        named (k @ ''[]'') (initial @ pre @ block @ post) = named (k @ ''[]'') block)"
proof -
  let ?ns = "number_text env"
  let ?pre = "concat (map (spec_pairs ?ns) before)"
  let ?block = "spec_pairs ?ns (k, v)"
  let ?post = "concat (map (spec_pairs ?ns) after)"
  from assms(4) have sb: "list_all (\<lambda>(k', v'). stringable v') before"
    and sv: "list_all (\<lambda>(k', v'). stringable v') [(k, v)]"
    and sa: "list_all (\<lambda>(k', v'). stringable v') after"
    by simp_all
  have p1: "map searchParams (fetched (snd (request env this endpoint method data (Obj before)))) =
       [initial @ ?pre]"
    by (rule request_Obj_fetched [OF assms(1-3) sb])
  have p2: "map searchParams (fetched (snd (request env this endpoint method data (Obj [(k, v)])))) =
       [initial @ ?block]"
    using request_Obj_fetched [OF assms(1-3) sv] by simp
  have p3: "map searchParams (fetched (snd (request env this endpoint method data (Obj after)))) =
       [initial @ ?post]"
    by (rule request_Obj_fetched [OF assms(1-3) sa])
  have p4: "map searchParams (fetched (snd (request env this endpoint method data
         (Obj (before @ (k, v) # after))))) = [initial @ ?pre @ ?block @ ?post]"
    using request_Obj_fetched [OF assms(1-3) assms(4)] by simp
  have three: "\<forall>a b c. v = Arr [a, b, c] \<longrightarrow>
        ?block = [(k @ ''[]'', string_form ?ns a), (k @ ''[]'', string_form ?ns b),
                  (k @ ''[]'', string_form ?ns c)]"
    by simp
  have absent: "v = Null \<or> v = Undefined \<longrightarrow> ?block = []"
    by auto
  have single: "(\<forall>vs. v \<noteq> Arr vs) \<and> v \<noteq> Null \<and> v \<noteq> Undefined \<longrightarrow>
        ?block = [(k, string_form ?ns v)]"
    by (cases v) auto
  have only: "distinct (map fst (before @ (k, v) # after)) \<and>
      (\<forall>k' \<in> fst ` set (before @ after). k' @ ''[]'' \<noteq> k \<and> k' \<noteq> k @ ''[]'') \<and>
      named k initial = [] \<and> named (k @ ''[]'') initial = [] \<longrightarrow>
        named k (initial @ ?pre @ ?block @ ?post) = named k ?block \<and>
        named (k @ ''[]'') (initial @ ?pre @ ?block @ ?post) = named (k @ ''[]'') ?block"
  proof
    assume a: "distinct (map fst (before @ (k, v) # after)) \<and>
      (\<forall>k' \<in> fst ` set (before @ after). k' @ ''[]'' \<noteq> k \<and> k' \<noteq> k @ ''[]'') \<and>
      named k initial = [] \<and> named (k @ ''[]'') initial = []"
    have "named n (?pre @ ?block @ ?post) = named n ?block" if "n = k \<or> n = k @ ''[]''" for n
      using named_in_block [of before k v after n ?ns] a that by simp
    with a show "named k (initial @ ?pre @ ?block @ ?post) = named k ?block \<and>
        named (k @ ''[]'') (initial @ ?pre @ ?block @ ?post) = named (k @ ''[]'') ?block"
      by (simp add: named_append)
  qed
  show ?thesis
    by (rule exI [of _ ?pre], rule exI [of _ ?block], rule exI [of _ ?post])
       (intro conjI p1 p2 p3 p4 three absent single only)
qed

theorem request_query_pairs_witness:
  "map searchParams (fetched (snd (request (answering no_content) (client (Some ''key''))
     ''/objects/products'' ''GET'' Null
     (Obj [(''k'', Arr [Str ''a'', Str ''b'', Str ''c'']), (''n'', Null), (''s'', Num (Fin 5))])))) =
     [[(''k[]'', ''a''), (''k[]'', ''b''), (''k[]'', ''c''), (''s'', ''5'')]] \<and>
   map (named ''k[]'') (map searchParams (fetched (snd (request (answering no_content)
     (client (Some ''key'')) ''/objects/products'' ''GET'' Null
     (Obj [(''k'', Arr [Str ''a'', Str ''b'', Str ''c'']), (''n'', Null), (''s'', Num (Fin 5))]))))) =
     [[(''k[]'', ''a''), (''k[]'', ''b''), (''k[]'', ''c'')]] \<and>
   map (named ''k'') (map searchParams (fetched (snd (request (answering no_content)
     (client (Some ''key'')) ''/objects/products'' ''GET'' Null
     (Obj [(''k'', Arr [Str ''a'', Str ''b'', Str ''c'']), (''n'', Null), (''s'', Num (Fin 5))]))))) =
     [[]] \<and>
   map (named ''n'') (map searchParams (fetched (snd (request (answering no_content)
     (client (Some ''key'')) ''/objects/products'' ''GET'' Null
     (Obj [(''k'', Arr [Str ''a'', Str ''b'', Str ''c'']), (''n'', Null), (''s'', Num (Fin 5))]))))) =
     [[]]"
proof -
  let ?env = "answering no_content"
  let ?c = "client (Some ''key'')"
  let ?v = "Arr [Str ''a'', Str ''b'', Str ''c'']"
  let ?after = "[(''n'', Null), (''s'', Num (Fin 5))]"
  have h1: "apiKey ?c = Some ''key''" and h2: "''key'' \<noteq> []"
    by (simp_all add: client_def)
  have h3: "new_URL ?env (baseUrl ?c @ ''/objects/products'') = Inr []"
    by (simp add: answering_def client_def sample_URL_def)
  have h4: "list_all (\<lambda>(k', v'). stringable v') ([] @ (''k'', ?v) # ?after)"
    by simp
  have n: "num_text (Fin 5) = ''5''"
    by (simp add: int_text_def nat_text.simps digit_char_def)
  have u: "sample_URL (''https://h/api'' @ ''/objects/products'') = Inr []"
    by (simp add: sample_URL_def)
  have q0: "query_pairs num_text (Obj []) = (None, [])"
    by (simp add: query_pairs_def)
  have q2: "query_pairs num_text (Obj ?after) = (None, [(''s'', ''5'')])"
    using n by (simp add: query_pairs_def)
  from request_query_pairs [OF h1 h2 h3 h4, of "''GET''" Null]
  obtain pre block post where
    r1: "map searchParams (fetched (snd (request ?env ?c ''/objects/products'' ''GET'' Null
           (Obj [])))) = [[] @ pre]"
    and r3: "map searchParams (fetched (snd (request ?env ?c ''/objects/products'' ''GET'' Null
           (Obj ?after)))) = [[] @ post]"
    and r4: "map searchParams (fetched (snd (request ?env ?c ''/objects/products'' ''GET'' Null
           (Obj ([] @ (''k'', ?v) # ?after))))) = [[] @ pre @ block @ post]"
    and b: "\<forall>a b c. ?v = Arr [a, b, c] \<longrightarrow>
        block = [(''k'' @ ''[]'', string_form (number_text ?env) a),
                 (''k'' @ ''[]'', string_form (number_text ?env) b),
                 (''k'' @ ''[]'', string_form (number_text ?env) c)]"
    by (elim exE conjE) (rule that)
  from b have block: "block = [(''k[]'', ''a''), (''k[]'', ''b''), (''k[]'', ''c'')]"
    by simp
  from r1 answering_fetched [OF u q0, of no_content "''GET''" Null] have pre: "pre = []"
    by simp
  from r3 answering_fetched [OF u q2, of no_content "''GET''" Null]
  have post: "post = [(''s'', ''5'')]"
    by simp
  from r4 have "map searchParams (fetched (snd (request ?env ?c ''/objects/products'' ''GET'' Null
     (Obj [(''k'', ?v), (''n'', Null), (''s'', Num (Fin 5))])))) =
     [[(''k[]'', ''a''), (''k[]'', ''b''), (''k[]'', ''c''), (''s'', ''5'')]]"
    unfolding pre post block by simp
  then show ?thesis by (simp add: named_def)
qed

text \<open>
  A value without a string form produces no pair: the conversion throws, outside the
  \<^verbatim>\<open>try\<close> block, and the transport is not called.
\<close>

theorem request_query_pairs_counterexample:
  "Obj [(''toString'', Num (Fin 5))] \<noteq> Null \<and> Obj [(''toString'', Num (Fin 5))] \<noteq> Undefined \<and>
   request (answering no_content) (client (Some ''key'')) ''/objects/products'' ''GET'' Null
     (Obj [(''k'', Obj [(''toString'', Num (Fin 5))])]) =
     (Inl (TypeError ''value.toString is not a function''),
      [NewURL ''https://h/api/objects/products'']) \<and>
   fetched (snd (request (answering no_content) (client (Some ''key'')) ''/objects/products''
     ''GET'' Null (Obj [(''k'', Obj [(''toString'', Num (Fin 5))])]))) = []"
  by (simp add: request_def client_def answering_def sample_URL_def query_pairs_def)




text \<open>
  C7 (as amended).  For every value, field name and options whose bounds are not \<^verbatim>\<open>NaN\<close>
  (the lower bound is \<open>0\<close> when \<^verbatim>\<open>min\<close> is left out, and there is no upper bound when
  \<^verbatim>\<open>max\<close> is left out), \<open>validateNumber\<close> returns the value, unchanged, if and only if
  the value is a number other than \<^verbatim>\<open>NaN\<close> within the inclusive bounds; the infinities are
  such numbers.  Otherwise it fails: with \<^verbatim>\<open><field> must be a valid number\<close> on a value
  that is not a number or is \<^verbatim>\<open>NaN\<close>, with \<^verbatim>\<open><field> must be at least <min>\<close> below the
  lower bound and with \<^verbatim>\<open><field> must be at most <max>\<close> above the upper bound.
\<close>

theorem validateNumber_bounds:
  assumes "lo = (case opt_min options of None \<Rightarrow> Fin 0 | Some m \<Rightarrow> m)"
    and "lo \<noteq> NaN" and "opt_max options \<noteq> Some NaN"
  shows "(validateNumber ns value fieldName options = Inr value \<longleftrightarrow>
            (\<exists>n. value = Num n \<and> n \<noteq> NaN \<and> js_le lo n \<and>
                 (\<forall>mx. opt_max options = Some mx \<longrightarrow> js_le n mx))) \<and>
         (\<forall>v. validateNumber ns value fieldName options = Inr v \<longrightarrow> v = value) \<and>
         ((\<forall>n. value \<noteq> Num n) \<or> value = Num NaN \<longrightarrow>
            validateNumber ns value fieldName options =
              Inl (Error (fieldName @ '' must be a valid number''))) \<and>
         (\<forall>n. value = Num n \<and> js_lt n lo \<longrightarrow>
            validateNumber ns value fieldName options =
              Inl (Error (fieldName @ '' must be at least '' @ ns lo))) \<and>
         (\<forall>n mx. value = Num n \<and> n \<noteq> NaN \<and> js_le lo n \<and> opt_max options = Some mx \<and> js_gt n mx \<longrightarrow>
            validateNumber ns value fieldName options =
              Inl (Error (fieldName @ '' must be at most '' @ ns mx)))"
proof (cases "value")
  case (Num n)
  show ?thesis
  proof (cases "n = NaN")
    case True
    with Num assms(1) show ?thesis by (simp add: validateNumber_def)
  next
    case False
    note nn = False
    have lt: "js_lt n lo = (\<not> js_le lo n)"
      using not_js_lt [OF nn assms(2)] by blast
    show ?thesis
    proof (cases "opt_max options")
      case None
      with Num nn assms(1) lt show ?thesis
        by (auto simp: validateNumber_def Let_def)
    next
      case (Some mx)
      with assms(3) have mx: "mx \<noteq> NaN" by auto
      have gt: "js_gt n mx = (\<not> js_le n mx)"
        unfolding js_gt_def using not_js_lt [OF mx nn] by blast
      from Some Num nn assms(1) lt gt show ?thesis
        by (auto simp: validateNumber_def Let_def)
    qed
  qed
qed (simp_all add: validateNumber_def)

theorem validateNumber_bounds_witness:
  "validateNumber num_text (Num (Fin 5)) ''Amount'' \<lparr>opt_min = None, opt_max = Some (Fin 365)\<rparr> =
     Inr (Num (Fin 5)) \<and>
   validateNumber num_text (Num (Fin 400)) ''Amount'' \<lparr>opt_min = None, opt_max = Some (Fin 365)\<rparr> =
     Inl (Error ''Amount must be at most 365'') \<and>
   validateNumber num_text (Num (Fin (- 1))) ''Amount'' \<lparr>opt_min = None, opt_max = Some (Fin 365)\<rparr> =
     Inl (Error ''Amount must be at least 0'') \<and>
   validateNumber num_text (Str ''5'') ''Amount'' \<lparr>opt_min = None, opt_max = Some (Fin 365)\<rparr> =
     Inl (Error ''Amount must be a valid number'')"
proof -
  let ?o = "\<lparr>opt_min = None, opt_max = Some (Fin 365)\<rparr>"
  have lo: "Fin 0 = (case opt_min ?o of None \<Rightarrow> Fin 0 | Some m \<Rightarrow> m)" by simp
  have n0: "Fin 0 \<noteq> NaN" by simp
  have mx: "opt_max ?o \<noteq> Some NaN" by simp
  have t0: "num_text (Fin 0) = ''0''" "num_text (Fin 365) = ''365''"
    by (simp_all add: int_text_def nat_text.simps digit_char_def)
  note t = validateNumber_bounds [OF lo n0 mx, of num_text _ "''Amount''"]
  have a: "validateNumber num_text (Num (Fin 5)) ''Amount'' ?o = Inr (Num (Fin 5))"
    using t [of "Num (Fin 5)"] by simp
  have b: "validateNumber num_text (Num (Fin 400)) ''Amount'' ?o =
      Inl (Error ''Amount must be at most 365'')"
    using t [of "Num (Fin 400)"] t0 by (simp add: js_gt_def)
  have c: "validateNumber num_text (Num (Fin (- 1))) ''Amount'' ?o =
      Inl (Error ''Amount must be at least 0'')"
    using t [of "Num (Fin (- 1))"] t0 by simp
  have d: "validateNumber num_text (Str ''5'') ''Amount'' ?o =
      Inl (Error ''Amount must be a valid number'')"
    using t [of "Str ''5''"] by simp
  from a b c d show ?thesis by simp
qed

text \<open>The value \<^verbatim>\<open>Infinity\<close> is returned under the default options, and it is not finite.\<close>

theorem validateNumber_bounds_counterexample:
  "validateNumber num_text (Num PosInf) ''Amount'' \<lparr>opt_min = None, opt_max = None\<rparr> =
     Inr (Num PosInf) \<and> \<not> isFinite PosInf"
  by (simp add: validateNumber_def)




text \<open>A trailing slash is not removed before the suffix is appended.\<close>

lemma constructor_trailing_slash:
  "constructor num_text (Str ''https://h/api/'') Null =
     Inr \<lparr>baseUrl = ''https://h/api//api'', apiKey = None\<rparr>"
proof -
  have v: "validateString num_text (Str ''https://h/api/'') ''Base URL'' exact_options =
      Inr ''https://h/api/''"
    by (simp add: validateString_exact trim_def is_space_def)
  have k: "validateOptionalString num_text Null ''API key'' exact_options = Inr None"
    by (simp add: validateOptionalString_exact)
  show ?thesis
    by (simp add: constructor_def v k normalizeBaseUrl_def endsWith_def key_or_null_def)
qed

text \<open>
  C8 (as amended).  After a construction and after every call of \<open>setApiKey\<close> that returns
  normally, the stored API key is either absent (the argument was \<^verbatim>\<open>null\<close>,
  \<^verbatim>\<open>undefined\<close> or the empty string) or exactly the string that was passed, which is
  non-empty and whose trimmed form is non-empty and at most 255 characters long.  The string
  is stored as passed, with its leading and trailing white space.
\<close>

theorem apiKey_invariant:
  "(\<forall>c. constructor ns b k = Inr c \<or> setApiKey ns c0 k = Inr c \<longrightarrow>
      apiKey c = None \<and> (k = Null \<or> k = Undefined \<or> k = Str []) \<or>
      (\<exists>s. apiKey c = Some s \<and> k = Str s \<and> s \<noteq> [] \<and> trim s \<noteq> [] \<and>
           length (trim s) \<le> 255))"
proof (intro allI impI)
  fix c
  assume "constructor ns b k = Inr c \<or> setApiKey ns c0 k = Inr c"
  then obtain r where r: "validateOptionalString ns k ''API key'' exact_options = Inr r"
    and c: "apiKey c = key_or_null r"
    using constructor_apiKey setApiKey_apiKey by blast
  from key_or_null_validated [OF r]
  show "apiKey c = None \<and> (k = Null \<or> k = Undefined \<or> k = Str []) \<or>
      (\<exists>s. apiKey c = Some s \<and> k = Str s \<and> s \<noteq> [] \<and> trim s \<noteq> [] \<and>
           length (trim s) \<le> 255)"
    unfolding c .
qed

theorem apiKey_invariant_witness:
  "setApiKey num_text (client None) (Str ''secret'') = Inr (client (Some ''secret'')) \<and>
   trim ''secret'' \<noteq> [] \<and>
   constructor num_text (Str ''https://h'') (Str []) = Inr (client None)"
proof -
  have a: "setApiKey num_text (client None) (Str ''secret'') = Inr (client (Some ''secret''))"
    by (simp add: setApiKey_def validateOptionalString_def validateString_def exact_options_def
        no_options_def key_or_null_def client_def trim_def is_space_def length_num_def js_gt_def)
  have b: "constructor num_text (Str ''https://h'') (Str []) = Inr (client None)"
    by (simp add: constructor_def validateOptionalString_def validateString_def exact_options_def
        no_options_def key_or_null_def client_def trim_def is_space_def length_num_def js_gt_def
        normalizeBaseUrl_def endsWith_def)
  from apiKey_invariant [of num_text "Str ''https://h''" "Str ''secret''" "client None"] a
  have "trim ''secret'' \<noteq> []"
    by (auto simp: client_def)
  with a b show ?thesis by simp
qed

text \<open>A key with surrounding blanks is stored with them.\<close>

theorem apiKey_invariant_counterexample:
  "setApiKey num_text (client None) (Str '' k '') = Inr (client (Some '' k '')) \<and>
   trim '' k '' = ''k'' \<and> '' k '' \<noteq> trim '' k ''"
  by (simp add: setApiKey_def validateOptionalString_def validateString_def exact_options_def
      no_options_def key_or_null_def client_def trim_def is_space_def length_num_def js_gt_def)

text \<open>
  C9.  The file operations are to pass the group and the name of a file, which are file paths,
  through validation without escaping, so that the path handed to the transport holds the
  caller's exact characters.  \<open>getFile\<close> and \<open>deleteFile\<close> validate with
  \<^verbatim>\<open>sanitize: false\<close> and do so.  \<open>uploadFile\<close> validates without that option, hence
  with the default \<^verbatim>\<open>sanitize: true\<close>: for the BASE64 file name \<^verbatim>\<open>dGVzdD8/Pw==\<close> the
  URL that it hands to the transport ends with \<^verbatim>\<open>dGVzdD8&#x2F;Pw==\<close>, where
  \<open>deleteFile\<close> keeps the name as it is.
\<close>

theorem uploadFile_escapes_path:
  "uploadFile (answering no_content) (client (Some ''key'')) (Str ''productpictures'')
       (Str ''dGVzdD8/Pw=='') (Some ''data'') =
     (Inr (Val success),
      [NewURL ''https://h/api/files/productpictures/dGVzdD8&#x2F;Pw=='',
       Fetch \<lparr>href = ''https://h/api/files/productpictures/dGVzdD8&#x2F;Pw=='', searchParams = []\<rparr>
             \<lparr>http_method = ''PUT'', headers = [(''GROCY-API-KEY'', ''key'')],
              body = Some ''data''\<rparr>]) \<and>
   snd (deleteFile (answering no_content) (client (Some ''key'')) (Str ''productpictures'')
       (Str ''dGVzdD8/Pw=='')) =
     [NewURL ''https://h/api/files/productpictures/dGVzdD8/Pw=='',
      Fetch \<lparr>href = ''https://h/api/files/productpictures/dGVzdD8/Pw=='', searchParams = []\<rparr>
            \<lparr>http_method = ''DELETE'',
             headers = [(''GROCY-API-KEY'', ''key''), (''Content-Type'', ''application/json'')],
             body = None\<rparr>]"
proof -
  have g: "validateString num_text (Str ''productpictures'') ''File group'' (upload_options 100) =
      Inr ''productpictures''"
    by (simp add: validateString_def upload_options_def no_options_def trim_def is_space_def
        length_num_def js_gt_def escape_def escape_char_def)
  have f: "validateString num_text (Str ''dGVzdD8/Pw=='') ''File name'' (upload_options 255) =
      Inr ''dGVzdD8&#x2F;Pw==''"
    by (simp add: validateString_def upload_options_def no_options_def trim_def is_space_def
        length_num_def js_gt_def escape_def escape_char_def)
  have g': "validateString num_text (Str ''productpictures'') ''File group'' (path_options 100) =
      Inr ''productpictures''"
    by (simp add: validateString_def path_options_def no_options_def trim_def is_space_def
        length_num_def js_gt_def)
  have f': "validateString num_text (Str ''dGVzdD8/Pw=='') ''File name'' (path_options 255) =
      Inr ''dGVzdD8/Pw==''"
    by (simp add: validateString_def path_options_def no_options_def trim_def is_space_def
        length_num_def js_gt_def)
  have u: "uploadFile (answering no_content) (client (Some ''key'')) (Str ''productpictures'')
       (Str ''dGVzdD8/Pw=='') (Some ''data'') =
     (Inr (Val success),
      [NewURL ''https://h/api/files/productpictures/dGVzdD8&#x2F;Pw=='',
       Fetch \<lparr>href = ''https://h/api/files/productpictures/dGVzdD8&#x2F;Pw=='', searchParams = []\<rparr>
             \<lparr>http_method = ''PUT'', headers = [(''GROCY-API-KEY'', ''key'')],
              body = Some ''data''\<rparr>])"
    by (simp add: uploadFile_def answering_def g f client_def no_content_def Let_def
        sample_URL_def)
  have d: "snd (deleteFile (answering no_content) (client (Some ''key'')) (Str ''productpictures'')
       (Str ''dGVzdD8/Pw=='')) =
     [NewURL ''https://h/api/files/productpictures/dGVzdD8/Pw=='',
      Fetch \<lparr>href = ''https://h/api/files/productpictures/dGVzdD8/Pw=='', searchParams = []\<rparr>
            \<lparr>http_method = ''DELETE'',
             headers = [(''GROCY-API-KEY'', ''key''), (''Content-Type'', ''application/json'')],
             body = None\<rparr>]"
    by (simp add: deleteFile_def answering_def g' f' request_def Let_def
        client_def no_content_def request_url_def request_init_def query_pairs_def
        handle_response_def sample_URL_def)
  from u d show ?thesis by simp
qed

end
